theory Spec2Isabelle
  imports Complex_Main "HOL-Library.Char_ord" "HOL-Library.List_Lexorder" "HOL-Library.AList"
begin

section \<open>The trivial network of znn v4 (core/v4/network/trivial/trivial_network.hpp)\<close>

subsection \<open>Three-component integer vectors\<close>

text \<open>
  \<open>vec3i\<close> is declared in types.hpp, which is not part of the sources at hand; the
  drivers build it from three \<open>int64_t\<close>. It is taken here as a triple of integers with
  the component-wise operators the network uses.
\<close>

datatype vec3i = Vec3i int int int

definition vzero :: vec3i where
  "vzero = Vec3i 0 0 0"

definition vone :: vec3i where
  "vone = Vec3i 1 1 1"

fun vadd :: "vec3i \<Rightarrow> vec3i \<Rightarrow> vec3i" where
  "vadd (Vec3i a b c) (Vec3i x y z) = Vec3i (a + x) (b + y) (c + z)"

fun vsub :: "vec3i \<Rightarrow> vec3i \<Rightarrow> vec3i" where
  "vsub (Vec3i a b c) (Vec3i x y z) = Vec3i (a - x) (b - y) (c - z)"

fun vmul :: "vec3i \<Rightarrow> vec3i \<Rightarrow> vec3i" where
  "vmul (Vec3i a b c) (Vec3i x y z) = Vec3i (a * x) (b * y) (c * z)"

fun vpos :: "vec3i \<Rightarrow> bool" where
  "vpos (Vec3i a b c) = (0 < a \<and> 0 < b \<and> 0 < c)"

subsection \<open>Failures\<close>

text \<open>
  \<open>ZI_ASSERT\<close> and \<open>UNIMPLEMENTED\<close> come from assert.hpp (not at hand); both are taken
  as fatal. Every throw and every failed assertion of the source is a branch returning
  \<open>Inl\<close>.
\<close>

datatype error =
    AssertFailed
  | Unimplemented
  | LogicError
  | MissingOption
  | KernelFailure
  | NullPointer
  | UseAfterFree
  | OutOfFuel

definition bindE :: "error + 'a \<Rightarrow> ('a \<Rightarrow> error + 'b) \<Rightarrow> error + 'b" where
  "bindE m f = (case m of Inl e \<Rightarrow> Inl e | Inr x \<Rightarrow> f x)"

fun foldE :: "('a \<Rightarrow> 's \<Rightarrow> error + 's) \<Rightarrow> 'a list \<Rightarrow> 's \<Rightarrow> error + 's" where
  "foldE f [] s = Inr s"
| "foldE f (x # xs) s = bindE (f x s) (foldE f xs)"

definition zi_assert :: "bool \<Rightarrow> error + unit" where
  "zi_assert b = (if b then Inr () else Inl AssertFailed)"

subsection \<open>Option bags\<close>

text \<open>
  Modelled from the spec: the \<open>options\<close> class (options.hpp) is not at hand. The spec
  describes an option bag as a string-keyed mapping of typed values; \<open>require_as\<close>
  fails on a missing key, \<open>optional_as\<close> falls back to its default. A byte string that
  aliases an array of doubles (\<open>filters\<close>, \<open>biases\<close>) is the list of those doubles.
\<close>

datatype oval =
    OString string
  | OSize nat
  | OVec3i vec3i
  | ODouble real
  | ORaw "real list"

type_synonym options = "(string \<times> oval) list"

definition contains :: "options \<Rightarrow> string \<Rightarrow> bool" where
  "contains opts k = (map_of opts k \<noteq> None)"

definition require_string :: "options \<Rightarrow> string \<Rightarrow> error + string" where
  "require_string opts k =
     (case map_of opts k of Some (OString s) \<Rightarrow> Inr s | _ \<Rightarrow> Inl MissingOption)"

definition require_size :: "options \<Rightarrow> string \<Rightarrow> error + nat" where
  "require_size opts k =
     (case map_of opts k of Some (OSize n) \<Rightarrow> Inr n | _ \<Rightarrow> Inl MissingOption)"

definition require_vec3i :: "options \<Rightarrow> string \<Rightarrow> error + vec3i" where
  "require_vec3i opts k =
     (case map_of opts k of Some (OVec3i v) \<Rightarrow> Inr v | _ \<Rightarrow> Inl MissingOption)"

definition require_raw :: "options \<Rightarrow> string \<Rightarrow> error + real list" where
  "require_raw opts k =
     (case map_of opts k of Some (ORaw xs) \<Rightarrow> Inr xs | _ \<Rightarrow> Inl MissingOption)"

definition optional_vec3i :: "options \<Rightarrow> string \<Rightarrow> vec3i \<Rightarrow> error + vec3i" where
  "optional_vec3i opts k d =
     (case map_of opts k of None \<Rightarrow> Inr d | Some (OVec3i v) \<Rightarrow> Inr v | _ \<Rightarrow> Inl MissingOption)"

definition optional_double :: "options \<Rightarrow> string \<Rightarrow> real \<Rightarrow> error + real" where
  "optional_double opts k d =
     (case map_of opts k of None \<Rightarrow> Inr d | Some (ODouble x) \<Rightarrow> Inr x | _ \<Rightarrow> Inl MissingOption)"

subsection \<open>The numerical collaborators\<close>

text \<open>
  The cube type, the convolution and pooling kernels, the filter and bias objects, the
  initializers, the transfer functions and the loaders of parameter strings live in
  headers that are not at hand (cube.hpp, convolution.hpp, pooling.hpp, filter.hpp,
  bias.hpp, initializators.hpp, transfer_functions.hpp, utils.hpp). They are
  parameters of the model: \<open>'c\<close> is a cube of doubles, \<open>'i\<close> a cube of indices, \<open>'f\<close> a
  filter, \<open>'b\<close> a bias and \<open>'t\<close> a transfer function. A collaborator that throws returns
  \<open>Inl\<close>. Doubles that are only carried around (hyperparameters, bias values, raw
  parameter strings) are idealised as reals. \<open>get_copy\<close> is the identity on values.
\<close>

record ('c, 'i, 'f, 'b, 't) kernels =
  convolve_sparse :: "'c \<Rightarrow> 'c \<Rightarrow> vec3i \<Rightarrow> error + 'c"
  convolve_sparse_flipped :: "'c \<Rightarrow> 'c \<Rightarrow> vec3i \<Rightarrow> error + 'c"
  convolve_sparse_inverse :: "'c \<Rightarrow> 'c \<Rightarrow> vec3i \<Rightarrow> error + 'c"
  pooling_filter :: "'c \<Rightarrow> vec3i \<Rightarrow> vec3i \<Rightarrow> error + ('c \<times> 'i)"
  pooling_backprop :: "vec3i \<Rightarrow> 'c \<Rightarrow> 'i \<Rightarrow> error + 'c"
  cube_size :: "'c \<Rightarrow> vec3i"
  cube_add :: "'c \<Rightarrow> 'c \<Rightarrow> 'c"
  cube_sum :: "'c \<Rightarrow> real"
  new_filter :: "vec3i \<Rightarrow> real \<Rightarrow> real \<Rightarrow> real \<Rightarrow> 'f"
  filter_W :: "'f \<Rightarrow> 'c"
  filter_update :: "'f \<Rightarrow> 'c \<Rightarrow> 'f"
  load_filters :: "'f list \<Rightarrow> vec3i \<Rightarrow> real list \<Rightarrow> error + 'f list"
  new_bias :: "real \<Rightarrow> real \<Rightarrow> real \<Rightarrow> 'b"
  bias_b :: "'b \<Rightarrow> real"
  bias_update :: "'b \<Rightarrow> real \<Rightarrow> 'b"
  load_biases :: "'b list \<Rightarrow> real list \<Rightarrow> error + 'b list"
  initialize :: "options \<Rightarrow> nat \<Rightarrow> error + real list"
  get_transfer_function :: "options \<Rightarrow> error + 't"
  tf_apply :: "'t \<Rightarrow> 'c \<Rightarrow> real \<Rightarrow> 'c"
  tf_apply_grad :: "'t \<Rightarrow> 'c \<Rightarrow> 'c \<Rightarrow> 'c"

subsection \<open>Edge kernels\<close>

text \<open>
  \<open>filter_edge\<close> holds a reference \<open>filter &\<close> into the filter store of its edge
  group: the index of the filter in \<open>filters_\<close>. \<open>forward\<close> and \<open>backward\<close> take the
  referenced filter, and \<open>backward\<close> returns it updated; the caller reads it from and
  writes it back to the store. \<open>last_input\<close> is a shared pointer, null (\<open>None\<close>) until
  the first forward.
\<close>

record 'c filter_edge =
  filter_stride :: vec3i
  filter_ref :: nat
  last_input :: "'c option"

definition filter_edge_forward ::
  "('c, 'i, 'f, 'b, 't) kernels \<Rightarrow> 'c filter_edge \<Rightarrow> 'f \<Rightarrow> 'c \<Rightarrow> error + ('c \<times> 'c filter_edge)"
where
  "filter_edge_forward K e F f =
     (let e1 = e\<lparr>last_input := Some f\<rparr>
      in bindE (convolve_sparse K f (filter_W K F) (filter_stride e1))
           (\<lambda>r. Inr (r, e1)))"

definition filter_edge_backward ::
  "('c, 'i, 'f, 'b, 't) kernels \<Rightarrow> 'c filter_edge \<Rightarrow> 'f \<Rightarrow> 'c
     \<Rightarrow> error + ('c \<times> 'c filter_edge \<times> 'f)"
where
  "filter_edge_backward K e F g =
     (case last_input e of
        None \<Rightarrow> Inl AssertFailed
      | Some li \<Rightarrow>
          bindE (convolve_sparse_flipped K li g (filter_stride e)) (\<lambda>dEdW.
          bindE (convolve_sparse_inverse K g (filter_W K F) (filter_stride e)) (\<lambda>ret.
          let F1 = filter_update K F dEdW
          in Inr (ret, e, F1))))"

text \<open>
  \<open>max_pooling_edge\<close>: the fields \<open>filter_size\<close> and \<open>filter_stride\<close> carry the prefix
  \<open>mp_\<close> here, since \<open>filter_stride\<close> is also a field of \<open>filter_edge\<close>.
\<close>

record 'i max_pooling_edge =
  mp_filter_size :: vec3i
  mp_filter_stride :: vec3i
  indices :: "'i option"
  insize :: vec3i

definition max_pooling_edge_forward ::
  "('c, 'i, 'f, 'b, 't) kernels \<Rightarrow> 'i max_pooling_edge \<Rightarrow> 'c \<Rightarrow> error + ('c \<times> 'i max_pooling_edge)"
where
  "max_pooling_edge_forward K e f =
     (let e1 = e\<lparr>insize := cube_size K f\<rparr>
      in bindE (pooling_filter K f (mp_filter_size e1) (mp_filter_stride e1))
           (\<lambda>r. Inr (fst r, e1\<lparr>indices := Some (snd r)\<rparr>)))"

definition max_pooling_edge_backward ::
  "('c, 'i, 'f, 'b, 't) kernels \<Rightarrow> 'i max_pooling_edge \<Rightarrow> 'c \<Rightarrow> error + 'c"
where
  "max_pooling_edge_backward K e g =
     (case indices e of
        None \<Rightarrow> Inl AssertFailed
      | Some ix \<Rightarrow>
          bindE (zi_assert (insize e =
                   vadd (cube_size K g) (vmul (vsub (mp_filter_size e) vone) (mp_filter_stride e))))
            (\<lambda>_. pooling_backprop K (insize e) g ix))"

text \<open>
  An edge is an \<open>edge_of<E>\<close> for one of the three kernels \<open>E\<close>; \<open>dummy_edge\<close> has no
  state. A pointer \<open>nodes*\<close> is the name of the node group that owns the object, and a
  pointer \<open>edge*\<close> is the name of the edge group together with the index in its
  \<open>edges_\<close>.
\<close>

type_synonym name = string

type_synonym edge_ref = "name \<times> nat"

datatype ('c, 'i) edge_impl =
    Dummy_edge
  | Max_pooling_edge "'i max_pooling_edge"
  | Filter_edge "'c filter_edge"

record ('c, 'i) edge_of =
  in_nodes :: name
  in_num :: nat
  out_nodes :: name
  out_num :: nat
  impl :: "('c, 'i) edge_impl"

definition impl_forward ::
  "('c, 'i, 'f, 'b, 't) kernels \<Rightarrow> ('c, 'i) edge_impl \<Rightarrow> 'f list \<Rightarrow> 'c
     \<Rightarrow> error + ('c \<times> ('c, 'i) edge_impl)"
where
  "impl_forward K im filters f =
     (case im of
        Dummy_edge \<Rightarrow> Inr (f, Dummy_edge)
      | Max_pooling_edge mp \<Rightarrow>
          bindE (max_pooling_edge_forward K mp f) (\<lambda>r. Inr (fst r, Max_pooling_edge (snd r)))
      | Filter_edge fe \<Rightarrow>
          if filter_ref fe < length filters
          then bindE (filter_edge_forward K fe (filters ! filter_ref fe) f)
                 (\<lambda>r. Inr (fst r, Filter_edge (snd r)))
          else Inl NullPointer)"

definition impl_backward ::
  "('c, 'i, 'f, 'b, 't) kernels \<Rightarrow> ('c, 'i) edge_impl \<Rightarrow> 'f list \<Rightarrow> 'c
     \<Rightarrow> error + ('c \<times> ('c, 'i) edge_impl \<times> 'f list)"
where
  "impl_backward K im filters g =
     (case im of
        Dummy_edge \<Rightarrow> Inr (g, Dummy_edge, filters)
      | Max_pooling_edge mp \<Rightarrow>
          bindE (max_pooling_edge_backward K mp g) (\<lambda>r. Inr (r, Max_pooling_edge mp, filters))
      | Filter_edge fe \<Rightarrow>
          if filter_ref fe < length filters
          then bindE (filter_edge_backward K fe (filters ! filter_ref fe) g)
                 (\<lambda>r. Inr (fst r, Filter_edge (fst (snd r)),
                           filters[filter_ref fe := snd (snd r)]))
          else Inl NullPointer)"

subsection \<open>Node groups, edge groups and the network\<close>

text \<open>
  The classes \<open>input_nodes\<close>, \<open>summing_nodes\<close> and \<open>transfer_nodes\<close> are one record
  with the dynamic type as a tag: the fields are the union of the members of the
  three classes (an input group uses \<open>size_\<close>, \<open>outputs_\<close> and \<open>opts_\<close> only; \<open>biases_\<close>
  and \<open>func_\<close> belong to a transfer group). Isabelle names cannot end in an underscore,
  so \<open>size_\<close>, \<open>inputs_\<close>, \<open>outputs_\<close>, \<open>received_\<close>, \<open>fs_\<close>, \<open>gs_\<close>, \<open>biases_\<close>, \<open>func_\<close>
  and \<open>opts_\<close> are written as below. A \<open>cube_p\<close> is a shared pointer and may be null.
\<close>

datatype nodes_kind = Input_nodes | Summing_nodes | Transfer_nodes

record ('c, 'b, 't) nodes =
  kind :: nodes_kind
  nsize :: nat
  biases :: "'b list"
  func :: "'t option"
  inputs :: "edge_ref list list"
  outputs :: "edge_ref list list"
  received :: "nat list"
  fs_buf :: "'c option list"
  gs_buf :: "'c option list"
  nopts :: options

text \<open>
  The edge groups \<open>dummy_edges\<close>, \<open>max_pooling_edges\<close> and \<open>filter_edges\<close> are one record
  as well: \<open>filters_\<close> and \<open>size_\<close> belong to \<open>filter_edges\<close> and stay empty and zero in
  the other two.
\<close>

record ('c, 'i, 'f) edges =
  goptions :: options
  gfilters :: "'f list"
  gedges :: "('c, 'i) edge_of list"
  gsize :: vec3i

text \<open>
  \<open>network::nedges\<close> and \<open>network::nnodes\<close>. The pointers \<open>in\<close> and \<open>out\<close> of an
  \<open>nedges\<close> are names of node groups, and the vectors \<open>in\<close> and \<open>out\<close> of an \<open>nnodes\<close>
  hold names of edge groups. \<open>edges\<close> is null until \<open>create_edges\<close>.
\<close>

record ('c, 'i, 'f) nedges =
  width :: vec3i
  stride :: vec3i
  in_stride :: vec3i
  in_fsize :: vec3i
  e_in :: name
  e_out :: name
  e_opts :: "options option"
  e_edges :: "('c, 'i, 'f) edges option"

record ('c, 'b, 't) nnodes =
  fov :: vec3i
  n_stride :: vec3i
  fsize :: vec3i
  n_nodes :: "('c, 'b, 't) nodes option"
  n_in :: "name list"
  n_out :: "name list"

text \<open>
  A \<open>std::map\<close> keyed by strings is an association list kept in key order, which is the
  order its iteration follows. \<open>input_nodes_\<close> and \<open>output_nodes_\<close> map a name to the
  same object as \<open>nodes_\<close> does, so they are the lists of their keys.
\<close>

record ('c, 'i, 'f, 'b, 't) network =
  net_edges :: "(name \<times> ('c, 'i, 'f) nedges) list"
  net_nodes :: "(name \<times> ('c, 'b, 't) nnodes) list"
  input_nodes :: "name list"
  output_nodes :: "name list"

definition map_insert :: "name \<Rightarrow> 'a \<Rightarrow> (name \<times> 'a) list \<Rightarrow> (name \<times> 'a) list" where
  "map_insert k v m =
     (if k \<in> fst ` set m then AList.update k v m else insort_key fst (k, v) m)"

definition set_insert :: "name \<Rightarrow> name list \<Rightarrow> name list" where
  "set_insert k ks = (if k \<in> set ks then ks else insort k ks)"

definition get_nnodes ::
  "('c, 'i, 'f, 'b, 't) network \<Rightarrow> name \<Rightarrow> error + ('c, 'b, 't) nnodes" where
  "get_nnodes net n =
     (case map_of (net_nodes net) n of None \<Rightarrow> Inl NullPointer | Some x \<Rightarrow> Inr x)"

definition put_nnodes ::
  "name \<Rightarrow> ('c, 'b, 't) nnodes \<Rightarrow> ('c, 'i, 'f, 'b, 't) network \<Rightarrow> ('c, 'i, 'f, 'b, 't) network"
where
  "put_nnodes n x net = net\<lparr>net_nodes := AList.update n x (net_nodes net)\<rparr>"

definition get_nedges ::
  "('c, 'i, 'f, 'b, 't) network \<Rightarrow> name \<Rightarrow> error + ('c, 'i, 'f) nedges" where
  "get_nedges net n =
     (case map_of (net_edges net) n of None \<Rightarrow> Inl NullPointer | Some x \<Rightarrow> Inr x)"

definition put_nedges ::
  "name \<Rightarrow> ('c, 'i, 'f) nedges \<Rightarrow> ('c, 'i, 'f, 'b, 't) network \<Rightarrow> ('c, 'i, 'f, 'b, 't) network"
where
  "put_nedges n x net = net\<lparr>net_edges := AList.update n x (net_edges net)\<rparr>"

text \<open>Dereferencing a \<open>nodes*\<close>, an \<open>edges\<close> group and an \<open>edge*\<close>.\<close>

definition get_nodes ::
  "('c, 'i, 'f, 'b, 't) network \<Rightarrow> name \<Rightarrow> error + ('c, 'b, 't) nodes" where
  "get_nodes net n =
     bindE (get_nnodes net n)
       (\<lambda>nn. case n_nodes nn of None \<Rightarrow> Inl NullPointer | Some nd \<Rightarrow> Inr nd)"

definition put_nodes ::
  "name \<Rightarrow> ('c, 'b, 't) nodes \<Rightarrow> ('c, 'i, 'f, 'b, 't) network \<Rightarrow> ('c, 'i, 'f, 'b, 't) network"
where
  "put_nodes n nd net =
     (case map_of (net_nodes net) n of
        None \<Rightarrow> net
      | Some nn \<Rightarrow> put_nnodes n (nn\<lparr>n_nodes := Some nd\<rparr>) net)"

definition get_group ::
  "('c, 'i, 'f, 'b, 't) network \<Rightarrow> name \<Rightarrow> error + ('c, 'i, 'f) edges" where
  "get_group net gn =
     bindE (get_nedges net gn)
       (\<lambda>ne. case e_edges ne of None \<Rightarrow> Inl NullPointer | Some g \<Rightarrow> Inr g)"

definition put_group ::
  "name \<Rightarrow> ('c, 'i, 'f) edges \<Rightarrow> ('c, 'i, 'f, 'b, 't) network \<Rightarrow> ('c, 'i, 'f, 'b, 't) network"
where
  "put_group gn g net =
     (case map_of (net_edges net) gn of
        None \<Rightarrow> net
      | Some ne \<Rightarrow> put_nedges gn (ne\<lparr>e_edges := Some g\<rparr>) net)"

definition get_edge ::
  "('c, 'i, 'f, 'b, 't) network \<Rightarrow> edge_ref \<Rightarrow> error + ('c, 'i) edge_of" where
  "get_edge net r =
     bindE (get_group net (fst r))
       (\<lambda>g. if snd r < length (gedges g) then Inr (gedges g ! snd r) else Inl NullPointer)"

definition set_impl ::
  "edge_ref \<Rightarrow> ('c, 'i) edge_impl \<Rightarrow> 'f list \<Rightarrow> ('c, 'i, 'f, 'b, 't) network
     \<Rightarrow> ('c, 'i, 'f, 'b, 't) network"
where
  "set_impl r im filters net =
     (case get_group net (fst r) of
        Inl _ \<Rightarrow> net
      | Inr g \<Rightarrow>
          put_group (fst r)
            (g\<lparr>gedges := (gedges g)[snd r := (gedges g ! snd r)\<lparr>impl := im\<rparr>],
               gfilters := filters\<rparr>) net)"

subsection \<open>The accumulation protocol\<close>

text \<open>
  \<open>fs_[n] = f\<close> on the first arrival, \<open>*fs_[n] += *f\<close> afterwards; the second form
  dereferences both pointers.
\<close>

definition accumulate ::
  "('c, 'i, 'f, 'b, 't) kernels \<Rightarrow> nat \<Rightarrow> 'c option \<Rightarrow> 'c option \<Rightarrow> error + 'c option"
where
  "accumulate K r buf f =
     (if r = 0 then Inr f
      else (case buf of
              None \<Rightarrow> Inl NullPointer
            | Some a \<Rightarrow> (case f of None \<Rightarrow> Inl NullPointer
                                  | Some b \<Rightarrow> Inr (Some (cube_add K a b)))))"

text \<open>
  \<open>nodes::forward\<close> of the three classes and \<open>edge_of::forward\<close> call each other. The
  first argument bounds the depth of that recursion; the source has no such bound, and
  a run that exhausts it returns \<open>OutOfFuel\<close>. The loops over \<open>outputs_[n]\<close> read
  \<open>fs_[n]\<close> from the object at every iteration, and the statements after the loop act
  on the object as the calls have left it.
\<close>

fun nodes_forward ::
  "nat \<Rightarrow> ('c, 'i, 'f, 'b, 't) kernels \<Rightarrow> name \<Rightarrow> nat \<Rightarrow> 'c option
     \<Rightarrow> ('c, 'i, 'f, 'b, 't) network \<Rightarrow> error + ('c, 'i, 'f, 'b, 't) network"
and edge_forward ::
  "nat \<Rightarrow> ('c, 'i, 'f, 'b, 't) kernels \<Rightarrow> edge_ref \<Rightarrow> 'c option
     \<Rightarrow> ('c, 'i, 'f, 'b, 't) network \<Rightarrow> error + ('c, 'i, 'f, 'b, 't) network"
where
  "nodes_forward 0 K n i f net = Inl OutOfFuel"
| "nodes_forward (Suc k) K n i f net =
     bindE (get_nodes net n) (\<lambda>nd.
     case kind nd of
       Input_nodes \<Rightarrow>
         bindE (zi_assert (i < nsize nd)) (\<lambda>_.
         foldE (\<lambda>e. edge_forward k K e f) (outputs nd ! i) net)
     | Summing_nodes \<Rightarrow>
         bindE (zi_assert (i < nsize nd)) (\<lambda>_.
         bindE (accumulate K (received nd ! i) (fs_buf nd ! i) f) (\<lambda>acc.
         let nd1 = nd\<lparr>fs_buf := (fs_buf nd)[i := acc],
                      received := (received nd)[i := Suc (received nd ! i)]\<rparr>;
             net1 = put_nodes n nd1 net
         in if received nd1 ! i = length (inputs nd1 ! i)
            then
              bindE (foldE (\<lambda>e s. bindE (get_nodes s n)
                               (\<lambda>x. edge_forward k K e (fs_buf x ! i) s))
                       (outputs nd1 ! i) net1) (\<lambda>net2.
              bindE (get_nodes net2 n) (\<lambda>nd2.
              Inr (put_nodes n (nd2\<lparr>received := (received nd2)[i := 0],
                                     fs_buf := (fs_buf nd2)[i := None]\<rparr>) net2)))
            else Inr net1))
     | Transfer_nodes \<Rightarrow>
         bindE (zi_assert (i < nsize nd)) (\<lambda>_.
         bindE (accumulate K (received nd ! i) (fs_buf nd ! i) f) (\<lambda>acc.
         let nd1 = nd\<lparr>fs_buf := (fs_buf nd)[i := acc],
                      received := (received nd)[i := Suc (received nd ! i)]\<rparr>
         in if received nd1 ! i = length (inputs nd1 ! i)
            then
              (case (func nd1, fs_buf nd1 ! i) of
                 (Some tf, Some c) \<Rightarrow>
                   let nd2 = nd1\<lparr>fs_buf :=
                                (fs_buf nd1)[i := Some (tf_apply K tf c (bias_b K (biases nd1 ! i)))]\<rparr>;
                       net1 = put_nodes n nd2 net
                   in bindE (foldE (\<lambda>e s. bindE (get_nodes s n)
                                       (\<lambda>x. edge_forward k K e (fs_buf x ! i) s))
                               (outputs nd2 ! i) net1) (\<lambda>net2.
                      bindE (get_nodes net2 n) (\<lambda>nd3.
                      Inr (put_nodes n (nd3\<lparr>received := (received nd3)[i := 0]\<rparr>) net2)))
               | _ \<Rightarrow> Inl NullPointer)
            else Inr (put_nodes n nd1 net))))"
| "edge_forward k K r f net =
     bindE (get_edge net r) (\<lambda>e.
     bindE (get_group net (fst r)) (\<lambda>g.
     case f of
       None \<Rightarrow> Inl NullPointer
     | Some c \<Rightarrow>
         bindE (impl_forward K (impl e) (gfilters g) c) (\<lambda>res.
         nodes_forward k K (out_nodes e) (out_num e) (Some (fst res))
           (set_impl r (snd res) (gfilters g) net))))"

text \<open>\<open>nodes::backward\<close> and \<open>edge_of::backward\<close>, in the same way.\<close>

fun nodes_backward ::
  "nat \<Rightarrow> ('c, 'i, 'f, 'b, 't) kernels \<Rightarrow> name \<Rightarrow> nat \<Rightarrow> 'c option
     \<Rightarrow> ('c, 'i, 'f, 'b, 't) network \<Rightarrow> error + ('c, 'i, 'f, 'b, 't) network"
and edge_backward ::
  "nat \<Rightarrow> ('c, 'i, 'f, 'b, 't) kernels \<Rightarrow> edge_ref \<Rightarrow> 'c option
     \<Rightarrow> ('c, 'i, 'f, 'b, 't) network \<Rightarrow> error + ('c, 'i, 'f, 'b, 't) network"
where
  "nodes_backward 0 K n i g net = Inl OutOfFuel"
| "nodes_backward (Suc k) K n i g net =
     bindE (get_nodes net n) (\<lambda>nd.
     case kind nd of
       Input_nodes \<Rightarrow> Inr net
     | Summing_nodes \<Rightarrow>
         bindE (zi_assert (i < nsize nd)) (\<lambda>_.
         bindE (accumulate K (received nd ! i) (gs_buf nd ! i) g) (\<lambda>acc.
         let nd1 = nd\<lparr>gs_buf := (gs_buf nd)[i := acc],
                      received := (received nd)[i := Suc (received nd ! i)]\<rparr>;
             net1 = put_nodes n nd1 net
         in if received nd1 ! i = length (outputs nd1 ! i) \<or> length (outputs nd1 ! i) = 0
            then
              bindE (foldE (\<lambda>e s. bindE (get_nodes s n)
                               (\<lambda>x. edge_backward k K e (gs_buf x ! i) s))
                       (inputs nd1 ! i) net1) (\<lambda>net2.
              bindE (get_nodes net2 n) (\<lambda>nd2.
              Inr (put_nodes n (nd2\<lparr>received := (received nd2)[i := 0],
                                     gs_buf := (gs_buf nd2)[i := None]\<rparr>) net2)))
            else Inr net1))
     | Transfer_nodes \<Rightarrow>
         bindE (zi_assert (i < nsize nd)) (\<lambda>_.
         bindE (accumulate K (received nd ! i) (gs_buf nd ! i) g) (\<lambda>acc.
         let nd1 = nd\<lparr>gs_buf := (gs_buf nd)[i := acc],
                      received := (received nd)[i := Suc (received nd ! i)]\<rparr>
         in if received nd1 ! i = length (outputs nd1 ! i) \<or> length (outputs nd1 ! i) = 0
            then
              (case (func nd1, gs_buf nd1 ! i, fs_buf nd1 ! i) of
                 (Some tf, Some g0, Some f0) \<Rightarrow>
                   let nd2 = nd1\<lparr>gs_buf := (gs_buf nd1)[i := Some (tf_apply_grad K tf g0 f0)]\<rparr>;
                       nd3 = nd2\<lparr>biases :=
                                (biases nd2)[i := bias_update K (biases nd2 ! i)
                                                    (cube_sum K (tf_apply_grad K tf g0 f0))]\<rparr>;
                       net1 = put_nodes n nd3 net
                   in bindE (foldE (\<lambda>e s. bindE (get_nodes s n)
                                       (\<lambda>x. edge_backward k K e (gs_buf x ! i) s))
                               (inputs nd3 ! i) net1) (\<lambda>net2.
                      bindE (get_nodes net2 n) (\<lambda>nd4.
                      Inr (put_nodes n (nd4\<lparr>received := (received nd4)[i := 0],
                                             gs_buf := (gs_buf nd4)[i := None],
                                             fs_buf := (fs_buf nd4)[i := None]\<rparr>) net2)))
               | _ \<Rightarrow> Inl NullPointer)
            else Inr (put_nodes n nd1 net))))"
| "edge_backward k K r g net =
     bindE (get_edge net r) (\<lambda>e.
     bindE (get_group net (fst r)) (\<lambda>gr.
     case g of
       None \<Rightarrow> Inl NullPointer
     | Some c \<Rightarrow>
         bindE (impl_backward K (impl e) (gfilters gr) c) (\<lambda>res.
         nodes_backward k K (in_nodes e) (in_num e) (Some (fst res))
           (set_impl r (fst (snd res)) (snd (snd res)) net))))"

subsection \<open>Wiring: attaching edges to node groups\<close>

definition num_out_nodes :: "('c, 'b, 't) nodes \<Rightarrow> nat" where
  "num_out_nodes nd = nsize nd"

definition num_in_nodes :: "('c, 'b, 't) nodes \<Rightarrow> nat" where
  "num_in_nodes nd = nsize nd"

definition attach_out_edge ::
  "name \<Rightarrow> nat \<Rightarrow> edge_ref \<Rightarrow> ('c, 'i, 'f, 'b, 't) network
     \<Rightarrow> error + ('c, 'i, 'f, 'b, 't) network"
where
  "attach_out_edge n i e net =
     bindE (get_nodes net n) (\<lambda>nd.
     bindE (zi_assert (i < nsize nd)) (\<lambda>_.
     Inr (put_nodes n (nd\<lparr>outputs := (outputs nd)[i := outputs nd ! i @ [e]]\<rparr>) net)))"

definition attach_in_edge ::
  "name \<Rightarrow> nat \<Rightarrow> edge_ref \<Rightarrow> ('c, 'i, 'f, 'b, 't) network
     \<Rightarrow> error + ('c, 'i, 'f, 'b, 't) network"
where
  "attach_in_edge n i e net =
     bindE (get_nodes net n) (\<lambda>nd.
     case kind nd of
       Input_nodes \<Rightarrow> Inl Unimplemented
     | _ \<Rightarrow>
         bindE (zi_assert (i < nsize nd)) (\<lambda>_.
         Inr (put_nodes n (nd\<lparr>inputs := (inputs nd)[i := inputs nd ! i @ [e]]\<rparr>) net)))"

text \<open>
  The constructor of \<open>edge_of<E>\<close>: the new edge, whose address is \<open>this\<close>, attaches
  itself to both node groups.
\<close>

definition new_edge_of ::
  "edge_ref \<Rightarrow> name \<Rightarrow> nat \<Rightarrow> name \<Rightarrow> nat \<Rightarrow> ('c, 'i) edge_impl
     \<Rightarrow> ('c, 'i, 'f, 'b, 't) network
     \<Rightarrow> error + (('c, 'i) edge_of \<times> ('c, 'i, 'f, 'b, 't) network)"
where
  "new_edge_of this inp inn outp outn im net =
     bindE (attach_out_edge inp inn this net) (\<lambda>net1.
     bindE (attach_in_edge outp outn this net1) (\<lambda>net2.
     Inr (\<lparr>in_nodes = inp, in_num = inn, out_nodes = outp, out_num = outn, impl = im\<rparr>,
          net2)))"

subsection \<open>Edge groups\<close>

text \<open>
  The constructors resize \<open>edges_\<close> (and \<open>filters_\<close>) and then assign slot \<open>k\<close> in the
  \<open>k\<close>-th iteration; the model appends, so that slot \<open>k\<close> is the \<open>k\<close>-th element, and
  \<open>add_edge\<close> is the body of the loop: it creates the edge for slot \<open>k\<close>. The first
  argument is the name under which the network stores the group: it identifies the
  addresses of the edges created.
\<close>

definition add_edge ::
  "name \<Rightarrow> name \<Rightarrow> nat \<Rightarrow> name \<Rightarrow> nat \<Rightarrow> ('c, 'i) edge_impl
     \<Rightarrow> ('c, 'i, 'f) edges \<times> ('c, 'i, 'f, 'b, 't) network
     \<Rightarrow> error + (('c, 'i, 'f) edges \<times> ('c, 'i, 'f, 'b, 't) network)"
where
  "add_edge gn inp inn outp outn im st =
     bindE (new_edge_of (gn, length (gedges (fst st))) inp inn outp outn im (snd st)) (\<lambda>r.
     Inr ((fst st)\<lparr>gedges := gedges (fst st) @ [fst r]\<rparr>, snd r))"

definition dummy_edges ::
  "name \<Rightarrow> name \<Rightarrow> name \<Rightarrow> options \<Rightarrow> ('c, 'i, 'f, 'b, 't) network
     \<Rightarrow> error + (('c, 'i, 'f) edges \<times> ('c, 'i, 'f, 'b, 't) network)"
where
  "dummy_edges gn inp outp opts net =
     bindE (get_nodes net inp) (\<lambda>a.
     bindE (get_nodes net outp) (\<lambda>b.
     bindE (zi_assert (num_out_nodes a = num_in_nodes b)) (\<lambda>_.
     let n = num_out_nodes a
     in foldE (\<lambda>i. add_edge gn inp i outp i Dummy_edge) [0..<n]
          (\<lparr>goptions = opts, gfilters = [], gedges = [], gsize = vzero\<rparr>, net))))"

definition max_pooling_edges ::
  "name \<Rightarrow> name \<Rightarrow> name \<Rightarrow> options \<Rightarrow> vec3i \<Rightarrow> ('c, 'i, 'f, 'b, 't) network
     \<Rightarrow> error + (('c, 'i, 'f) edges \<times> ('c, 'i, 'f, 'b, 't) network)"
where
  "max_pooling_edges gn inp outp opts strd net =
     bindE (get_nodes net inp) (\<lambda>a.
     bindE (get_nodes net outp) (\<lambda>b.
     bindE (zi_assert (num_out_nodes a = num_in_nodes b)) (\<lambda>_.
     let n = num_out_nodes a
     in bindE (require_vec3i opts ''size'') (\<lambda>sz.
        foldE (\<lambda>i. add_edge gn inp i outp i
                      (Max_pooling_edge \<lparr>mp_filter_size = sz, mp_filter_stride = strd,
                                         indices = None, insize = vzero\<rparr>))
          [0..<n]
          (\<lparr>goptions = opts, gfilters = [], gedges = [], gsize = vzero\<rparr>, net)))))"

text \<open>
  The raw array \<open>filters_raw\<close> of \<open>filter_edges\<close>: \<open>new double[n]\<close> followed by
  \<open>initialize\<close> gives an allocated array, \<open>delete []\<close> ends its lifetime, and building
  a \<open>std::string\<close> from the pointer reads the array.
\<close>

datatype raw_array = Allocated "real list" | Deleted

definition delete_array :: "raw_array \<Rightarrow> raw_array" where
  "delete_array a = Deleted"

definition string_of_raw :: "raw_array \<Rightarrow> nat \<Rightarrow> error + real list" where
  "string_of_raw a n =
     (case a of Deleted \<Rightarrow> Inl UseAfterFree | Allocated xs \<Rightarrow> Inr (take n xs))"

fun vprod :: "vec3i \<Rightarrow> int" where
  "vprod (Vec3i a b c) = a * b * c"

definition filter_values_of ::
  "('c, 'i, 'f, 'b, 't) kernels \<Rightarrow> options \<Rightarrow> nat \<Rightarrow> nat \<Rightarrow> vec3i \<Rightarrow> error + real list"
where
  "filter_values_of K opts n m sz =
     (if contains opts ''filters'' then require_raw opts ''filters''
      else
        let n_values = nat (int (n * m) * vprod sz)
        in bindE (initialize K opts n_values) (\<lambda>vals.
           let filters_raw = Allocated vals;
               filters_raw1 = delete_array filters_raw
           in string_of_raw filters_raw1 n_values))"

definition add_filter_edge ::
  "name \<Rightarrow> name \<Rightarrow> name \<Rightarrow> vec3i \<Rightarrow> 'f \<Rightarrow> nat \<times> nat
     \<Rightarrow> ('c, 'i, 'f) edges \<times> ('c, 'i, 'f, 'b, 't) network
     \<Rightarrow> error + (('c, 'i, 'f) edges \<times> ('c, 'i, 'f, 'b, 't) network)"
where
  "add_filter_edge gn inp outp strd F ij st =
     (let k = length (gedges (fst st));
          g1 = (fst st)\<lparr>gfilters := gfilters (fst st) @ [F]\<rparr>
      in add_edge gn inp (fst ij) outp (snd ij)
           (Filter_edge \<lparr>filter_stride = strd, filter_ref = k, last_input = None\<rparr>)
           (g1, snd st))"

text \<open>
  The constructor of \<open>filter_edges\<close> in two parts: \<open>wire_filter_edges\<close> is the part up
  to the end of the loops, which creates the filters and wires the edges; it returns
  the local variables \<open>n\<close> and \<open>m\<close> with the group and the network. \<open>filter_edges\<close>
  continues with the filter values and loads them.
\<close>

definition wire_filter_edges ::
  "('c, 'i, 'f, 'b, 't) kernels \<Rightarrow> name \<Rightarrow> name \<Rightarrow> name \<Rightarrow> options \<Rightarrow> vec3i
     \<Rightarrow> ('c, 'i, 'f, 'b, 't) network
     \<Rightarrow> error + (nat \<times> nat \<times> ('c, 'i, 'f) edges \<times> ('c, 'i, 'f, 'b, 't) network)"
where
  "wire_filter_edges K gn inp outp opts strd net =
     bindE (get_nodes net inp) (\<lambda>a.
     bindE (get_nodes net outp) (\<lambda>b.
     let n = num_out_nodes a; m = num_in_nodes b
     in bindE (zi_assert (n > 0 \<and> m > 0)) (\<lambda>_.
        bindE (optional_double opts ''eta'' 0.1) (\<lambda>eta.
        bindE (optional_double opts ''momentum'' 0.0) (\<lambda>mom.
        bindE (optional_double opts ''weight_decay'' 0.0) (\<lambda>wd.
        bindE (require_vec3i opts ''size'') (\<lambda>sz.
        bindE (foldE (add_filter_edge gn inp outp strd (new_filter K sz eta mom wd))
                (List.product [0..<n] [0..<m])
                (\<lparr>goptions = opts, gfilters = [], gedges = [], gsize = sz\<rparr>, net)) (\<lambda>st.
        Inr (n, m, st)))))))))"

definition filter_edges ::
  "('c, 'i, 'f, 'b, 't) kernels \<Rightarrow> name \<Rightarrow> name \<Rightarrow> name \<Rightarrow> options \<Rightarrow> vec3i
     \<Rightarrow> ('c, 'i, 'f, 'b, 't) network
     \<Rightarrow> error + (('c, 'i, 'f) edges \<times> ('c, 'i, 'f, 'b, 't) network)"
where
  "filter_edges K gn inp outp opts strd net =
     bindE (wire_filter_edges K gn inp outp opts strd net) (\<lambda>wired.
     let n = fst wired; m = fst (snd wired); st = snd (snd wired); sz = gsize (fst st)
     in bindE (filter_values_of K opts n m sz) (\<lambda>filter_values.
        bindE (load_filters K (gfilters (fst st)) sz filter_values) (\<lambda>fl.
        Inr ((fst st)\<lparr>gfilters := fl\<rparr>, snd st))))"

subsection \<open>Node group constructors\<close>

definition new_input_nodes :: "nat \<Rightarrow> options \<Rightarrow> ('c, 'b, 't) nodes" where
  "new_input_nodes s op =
     \<lparr>kind = Input_nodes, nsize = s, biases = [], func = None, inputs = [],
      outputs = replicate s [], received = [], fs_buf = [], gs_buf = [], nopts = op\<rparr>"

definition new_summing_nodes :: "nat \<Rightarrow> options \<Rightarrow> ('c, 'b, 't) nodes" where
  "new_summing_nodes s op =
     \<lparr>kind = Summing_nodes, nsize = s, biases = [], func = None, inputs = replicate s [],
      outputs = replicate s [], received = replicate s 0, fs_buf = replicate s None,
      gs_buf = replicate s None, nopts = op\<rparr>"

definition new_transfer_nodes ::
  "('c, 'i, 'f, 'b, 't) kernels \<Rightarrow> options \<Rightarrow> error + ('c, 'b, 't) nodes" where
  "new_transfer_nodes K opts =
     bindE (require_size opts ''size'') (\<lambda>s.
     bindE (get_transfer_function K opts) (\<lambda>tf.
     bindE (optional_double opts ''eta'' 0.1) (\<lambda>eta.
     bindE (optional_double opts ''momentum'' 0.0) (\<lambda>mom.
     bindE (optional_double opts ''weight_decay'' 0.0) (\<lambda>wd.
     bindE (if contains opts ''biases'' then require_raw opts ''biases''
            else if contains opts ''init'' then initialize K opts s
            else Inr (replicate s 0)) (\<lambda>bias_values.
     bindE (load_biases K (replicate s (new_bias K eta mom wd)) bias_values) (\<lambda>bs.
     Inr \<lparr>kind = Transfer_nodes, nsize = s, biases = bs, func = Some tf,
          inputs = replicate s [], outputs = replicate s [], received = replicate s 0,
          fs_buf = replicate s None, gs_buf = replicate s None, nopts = opts\<rparr>)))))))"

subsection \<open>Building the graph\<close>

definition add_nodes ::
  "('c, 'i, 'f, 'b, 't) kernels \<Rightarrow> options \<Rightarrow> ('c, 'i, 'f, 'b, 't) network
     \<Rightarrow> error + ('c, 'i, 'f, 'b, 't) network"
where
  "add_nodes K op net =
     bindE (require_string op ''name'') (\<lambda>nm.
     bindE (require_string op ''type'') (\<lambda>type.
     bindE (require_size op ''size'') (\<lambda>sz.
     bindE (zi_assert (sz > 0)) (\<lambda>_.
     bindE (zi_assert (nm \<notin> fst ` set (net_nodes net))) (\<lambda>_.
     let ns = \<lparr>fov = vzero, n_stride = vzero, fsize = vzero, n_nodes = None,
               n_in = [], n_out = []\<rparr>;
         net1 = net\<lparr>net_nodes := map_insert nm ns (net_nodes net)\<rparr>
     in if type = ''input''
        then Inr (put_nnodes nm (ns\<lparr>n_nodes := Some (new_input_nodes sz op)\<rparr>)
                    (net1\<lparr>input_nodes := set_insert nm (input_nodes net1)\<rparr>))
        else if type = ''sum''
        then Inr (put_nnodes nm (ns\<lparr>n_nodes := Some (new_summing_nodes sz op)\<rparr>) net1)
        else if type = ''transfer''
        then bindE (new_transfer_nodes K op) (\<lambda>nd.
             Inr (put_nnodes nm (ns\<lparr>n_nodes := Some nd\<rparr>) net1))
        else Inl LogicError)))))"

definition add_edges ::
  "options \<Rightarrow> ('c, 'i, 'f, 'b, 't) network \<Rightarrow> error + ('c, 'i, 'f, 'b, 't) network"
where
  "add_edges op net =
     bindE (require_string op ''name'') (\<lambda>nm.
     bindE (require_string op ''type'') (\<lambda>type.
     bindE (require_string op ''input'') (\<lambda>inp.
     bindE (require_string op ''output'') (\<lambda>outp.
     bindE (zi_assert (nm \<notin> fst ` set (net_edges net))) (\<lambda>_.
     bindE (zi_assert (inp \<in> fst ` set (net_nodes net) \<and> outp \<in> fst ` set (net_nodes net))) (\<lambda>_.
     let es = \<lparr>width = vone, stride = vone, in_stride = vzero, in_fsize = vzero,
               e_in = inp, e_out = outp, e_opts = Some op, e_edges = None\<rparr>
     in bindE (get_nnodes net inp) (\<lambda>a.
        let net1 = put_nnodes inp (a\<lparr>n_out := n_out a @ [nm]\<rparr>) net
        in bindE (get_nnodes net1 outp) (\<lambda>b.
           let net2 = put_nnodes outp (b\<lparr>n_in := n_in b @ [nm]\<rparr>) net1;
               net3 = net2\<lparr>net_edges := map_insert nm es (net_edges net2)\<rparr>
           in if type = ''max_filter''
              then bindE (require_vec3i op ''size'') (\<lambda>w.
                   bindE (require_vec3i op ''stride'') (\<lambda>st.
                   Inr (put_nedges nm (es\<lparr>width := w, stride := st\<rparr>) net3)))
              else if type = ''conv''
              then bindE (require_vec3i op ''size'') (\<lambda>w.
                   bindE (optional_vec3i op ''stride'' vone) (\<lambda>st.
                   Inr (put_nedges nm (es\<lparr>width := w, stride := st\<rparr>) net3)))
              else if type = ''dummy''
              then Inr net3
              else Inl LogicError))))))))"

subsection \<open>The geometry passes\<close>

text \<open>
  \<open>stride_pass\<close> and \<open>fov_pass\<close> recurse along the edges; the first argument bounds the
  depth of the recursion, as for the accumulation protocol.
\<close>

fun stride_pass ::
  "nat \<Rightarrow> name \<Rightarrow> vec3i \<Rightarrow> ('c, 'i, 'f, 'b, 't) network
     \<Rightarrow> error + ('c, 'i, 'f, 'b, 't) network"
where
  "stride_pass 0 n s net = Inl OutOfFuel"
| "stride_pass (Suc k) n s net =
     bindE (get_nnodes net n) (\<lambda>nn.
     if n_stride nn \<noteq> vzero
     then bindE (zi_assert (n_stride nn = s)) (\<lambda>_. Inr net)
     else
       foldE (\<lambda>e net1.
                bindE (get_nedges net1 e) (\<lambda>ne.
                stride_pass k (e_out ne) (vmul s (stride ne))
                  (put_nedges e (ne\<lparr>in_stride := s\<rparr>) net1)))
         (n_out nn) (put_nnodes n (nn\<lparr>n_stride := s\<rparr>) net))"

fun fov_pass ::
  "nat \<Rightarrow> name \<Rightarrow> vec3i \<Rightarrow> vec3i \<Rightarrow> ('c, 'i, 'f, 'b, 't) network
     \<Rightarrow> error + ('c, 'i, 'f, 'b, 't) network"
where
  "fov_pass 0 n fv fsz net = Inl OutOfFuel"
| "fov_pass (Suc k) n fv fsz net =
     bindE (get_nnodes net n) (\<lambda>nn.
     if fov nn \<noteq> vzero
     then bindE (zi_assert (fsize nn = fsz)) (\<lambda>_.
          bindE (zi_assert (fov nn = fv)) (\<lambda>_. Inr net))
     else
       bindE (foldE (\<lambda>e net1.
                       bindE (get_nedges net1 e) (\<lambda>ne.
                       Inr (put_nedges e (ne\<lparr>in_fsize := fsz\<rparr>) net1)))
                (n_out nn) net) (\<lambda>net1.
       foldE (\<lambda>e net2.
                bindE (get_nedges net2 e) (\<lambda>ne.
                let new_fov = vadd (vmul (vsub fv vone) (stride ne)) (width ne);
                    new_fsize = vadd (vmul (vsub (width ne) vone) (in_stride ne)) fsz
                in fov_pass k (e_in ne) new_fov new_fsize net2))
         (n_in nn) (put_nnodes n (nn\<lparr>fov := fv, fsize := fsz\<rparr>) net1)))"

definition init ::
  "nat \<Rightarrow> vec3i \<Rightarrow> ('c, 'i, 'f, 'b, 't) network \<Rightarrow> error + ('c, 'i, 'f, 'b, 't) network"
where
  "init fuel outsz net =
     (let net1 = net\<lparr>output_nodes :=
                   fold (\<lambda>x outs. if length (n_out (snd x)) = 0
                                   then set_insert (fst x) outs else outs)
                     (net_nodes net) (output_nodes net)\<rparr>
      in bindE (foldE (\<lambda>x. stride_pass fuel x vone) (input_nodes net1) net1) (\<lambda>net2.
         foldE (\<lambda>x. fov_pass fuel x vone outsz) (output_nodes net2) net2))"

definition create_edges ::
  "('c, 'i, 'f, 'b, 't) kernels \<Rightarrow> ('c, 'i, 'f, 'b, 't) network
     \<Rightarrow> error + ('c, 'i, 'f, 'b, 't) network"
where
  "create_edges K net =
     foldE (\<lambda>gn net1.
              bindE (get_nedges net1 gn) (\<lambda>ne.
              case e_opts ne of
                None \<Rightarrow> Inl NullPointer
              | Some opts \<Rightarrow>
                  bindE (require_string opts ''type'') (\<lambda>type.
                  bindE (if type = ''max_filter''
                         then max_pooling_edges gn (e_in ne) (e_out ne) opts (in_stride ne) net1
                         else if type = ''conv''
                         then filter_edges K gn (e_in ne) (e_out ne) opts (in_stride ne) net1
                         else if type = ''dummy''
                         then dummy_edges gn (e_in ne) (e_out ne) opts net1
                         else Inl LogicError) (\<lambda>r.
                  Inr (put_nedges gn (ne\<lparr>e_edges := Some (fst r), e_opts := None\<rparr>) (snd r))))))
       (map fst (net_edges net)) net"

definition empty_network :: "('c, 'i, 'f, 'b, 't) network" where
  "empty_network = \<lparr>net_edges = [], net_nodes = [], input_nodes = [], output_nodes = []\<rparr>"

definition make_network ::
  "nat \<Rightarrow> ('c, 'i, 'f, 'b, 't) kernels \<Rightarrow> options list \<Rightarrow> options list \<Rightarrow> vec3i
     \<Rightarrow> error + ('c, 'i, 'f, 'b, 't) network"
where
  "make_network fuel K ns es outsz =
     bindE (foldE (add_nodes K) ns empty_network) (\<lambda>net1.
     bindE (foldE add_edges es net1) (\<lambda>net2.
     bindE (init fuel outsz net2) (\<lambda>net3.
     create_edges K net3)))"

subsection \<open>The passes over the graph\<close>

definition get_featuremaps :: "('c, 'b, 't) nodes \<Rightarrow> error + 'c option list" where
  "get_featuremaps nd =
     (case kind nd of Input_nodes \<Rightarrow> Inl Unimplemented | _ \<Rightarrow> Inr (fs_buf nd))"

text \<open>
  The argument and the result of \<open>forward\<close> and \<open>backward\<close> are maps from names to
  vectors of cube pointers: association lists in key order.
\<close>

definition collect_featuremaps ::
  "('c, 'i, 'f, 'b, 't) network \<Rightarrow> error + (name \<times> 'c option list) list" where
  "collect_featuremaps net =
     foldE (\<lambda>l ret. bindE (get_nodes net l) (\<lambda>nd.
                     bindE (get_featuremaps nd) (\<lambda>fm. Inr (ret @ [(l, fm)]))))
       (output_nodes net) []"

definition network_forward ::
  "nat \<Rightarrow> ('c, 'i, 'f, 'b, 't) kernels \<Rightarrow> (name \<times> 'c option list) list
     \<Rightarrow> ('c, 'i, 'f, 'b, 't) network
     \<Rightarrow> error + ((name \<times> 'c option list) list \<times> ('c, 'i, 'f, 'b, 't) network)"
where
  "network_forward fuel K fin net =
     bindE (zi_assert (length fin = length (input_nodes net))) (\<lambda>_.
     bindE (foldE (\<lambda>inp net1.
              bindE (zi_assert (fst inp \<in> set (input_nodes net1))) (\<lambda>_.
              bindE (get_nodes net1 (fst inp)) (\<lambda>in_layer.
              bindE (zi_assert (num_in_nodes in_layer = length (snd inp))) (\<lambda>_.
              foldE (\<lambda>i. nodes_forward fuel K (fst inp) i (snd inp ! i))
                [0..<length (snd inp)] net1))))
            fin net) (\<lambda>net2.
     bindE (collect_featuremaps net2) (\<lambda>ret. Inr (ret, net2))))"

definition network_backward ::
  "nat \<Rightarrow> ('c, 'i, 'f, 'b, 't) kernels \<Rightarrow> (name \<times> 'c option list) list
     \<Rightarrow> ('c, 'i, 'f, 'b, 't) network
     \<Rightarrow> error + ((name \<times> 'c option list) list \<times> ('c, 'i, 'f, 'b, 't) network)"
where
  "network_backward fuel K fout net =
     bindE (zi_assert (length fout = length (input_nodes net))) (\<lambda>_.
     bindE (foldE (\<lambda>out net1.
              bindE (zi_assert (fst out \<in> set (output_nodes net1))) (\<lambda>_.
              bindE (get_nodes net1 (fst out)) (\<lambda>out_layer.
              bindE (zi_assert (num_out_nodes out_layer = length (snd out))) (\<lambda>_.
              foldE (\<lambda>i. nodes_backward fuel K (fst out) i (snd out ! i))
                [0..<length (snd out)] net1))))
            fout net) (\<lambda>net2.
     Inr (map (\<lambda>l. (l, [])) (input_nodes net2), net2)))"

subsection \<open>Observing the wiring\<close>

text \<open>
  \<open>out_edges[i]\<close> and \<open>in_edges[j]\<close> of a node group, and its number of channels, read
  from the network; a group that is absent has no channels.
\<close>

definition out_edges :: "('c, 'i, 'f, 'b, 't) network \<Rightarrow> name \<Rightarrow> nat \<Rightarrow> edge_ref list" where
  "out_edges net n i =
     (case get_nodes net n of
        Inr nd \<Rightarrow> if i < length (outputs nd) then outputs nd ! i else []
      | Inl _ \<Rightarrow> [])"

definition in_edges :: "('c, 'i, 'f, 'b, 't) network \<Rightarrow> name \<Rightarrow> nat \<Rightarrow> edge_ref list" where
  "in_edges net n i =
     (case get_nodes net n of
        Inr nd \<Rightarrow> if i < length (inputs nd) then inputs nd ! i else []
      | Inl _ \<Rightarrow> [])"

definition channels :: "('c, 'i, 'f, 'b, 't) network \<Rightarrow> name \<Rightarrow> nat" where
  "channels net n = (case get_nodes net n of Inr nd \<Rightarrow> nsize nd | Inl _ \<Rightarrow> 0)"

text \<open>The vectors of a node group have one slot per channel.\<close>

definition nodes_ok :: "('c, 'b, 't) nodes \<Rightarrow> bool" where
  "nodes_ok nd =
     (length (outputs nd) = nsize nd \<and>
      (kind nd \<noteq> Input_nodes \<longrightarrow>
         length (inputs nd) = nsize nd \<and> length (received nd) = nsize nd \<and>
         length (fs_buf nd) = nsize nd \<and> length (gs_buf nd) = nsize nd) \<and>
      (kind nd = Transfer_nodes \<longrightarrow> length (biases nd) = nsize nd \<and> func nd \<noteq> None))"

definition all_nodes_ok :: "('c, 'i, 'f, 'b, 't) network \<Rightarrow> bool" where
  "all_nodes_ok net =
     list_all (\<lambda>x. case n_nodes (snd x) of None \<Rightarrow> True | Some nd \<Rightarrow> nodes_ok nd)
       (net_nodes net)"

text \<open>No edge of the group \<open>gn\<close> is attached to any node group yet.\<close>

definition group_unused :: "name \<Rightarrow> ('c, 'i, 'f, 'b, 't) network \<Rightarrow> bool" where
  "group_unused gn net =
     list_all (\<lambda>x. case n_nodes (snd x) of
                      None \<Rightarrow> True
                    | Some nd \<Rightarrow> list_all (list_all (\<lambda>r. fst r \<noteq> gn)) (outputs nd) \<and>
                                list_all (list_all (\<lambda>r. fst r \<noteq> gn)) (inputs nd))
       (net_nodes net)"

subsection \<open>Observing the geometry\<close>

text \<open>The links of the graph, which the geometry passes leave alone.\<close>

definition node_links ::
  "('c, 'i, 'f, 'b, 't) network \<Rightarrow> name \<Rightarrow> (name list \<times> name list) option" where
  "node_links net n = map_option (\<lambda>a. (n_in a, n_out a)) (map_of (net_nodes net) n)"

definition edge_links ::
  "('c, 'i, 'f, 'b, 't) network \<Rightarrow> name \<Rightarrow> (name \<times> name \<times> vec3i \<times> vec3i) option" where
  "edge_links net g =
     map_option (\<lambda>e. (e_in e, e_out e, stride e, width e)) (map_of (net_edges net) g)"

text \<open>The geometry of a node group and of an edge group, zero where the group is absent.\<close>

definition stride_of :: "('c, 'i, 'f, 'b, 't) network \<Rightarrow> name \<Rightarrow> vec3i" where
  "stride_of net n = (case map_of (net_nodes net) n of Some a \<Rightarrow> n_stride a | None \<Rightarrow> vzero)"

definition fov_of :: "('c, 'i, 'f, 'b, 't) network \<Rightarrow> name \<Rightarrow> vec3i" where
  "fov_of net n = (case map_of (net_nodes net) n of Some a \<Rightarrow> fov a | None \<Rightarrow> vzero)"

definition fsize_of :: "('c, 'i, 'f, 'b, 't) network \<Rightarrow> name \<Rightarrow> vec3i" where
  "fsize_of net n = (case map_of (net_nodes net) n of Some a \<Rightarrow> fsize a | None \<Rightarrow> vzero)"

definition in_stride_of :: "('c, 'i, 'f, 'b, 't) network \<Rightarrow> name \<Rightarrow> vec3i" where
  "in_stride_of net g = (case map_of (net_edges net) g of Some e \<Rightarrow> in_stride e | None \<Rightarrow> vzero)"

definition in_fsize_of :: "('c, 'i, 'f, 'b, 't) network \<Rightarrow> name \<Rightarrow> vec3i" where
  "in_fsize_of net g = (case map_of (net_edges net) g of Some e \<Rightarrow> in_fsize e | None \<Rightarrow> vzero)"


text \<open>Before \<open>init\<close> no node group has a geometry.\<close>

definition fresh_geometry :: "('c, 'i, 'f, 'b, 't) network \<Rightarrow> bool" where
  "fresh_geometry net =
     list_all (\<lambda>x. fov (snd x) = vzero \<and> n_stride (snd x) = vzero \<and> fsize (snd x) = vzero)
       (net_nodes net)"


text \<open>A pass either succeeds with a state satisfying \<open>P\<close> or fails an assertion.\<close>

definition ok_or_assert :: "('s \<Rightarrow> bool) \<Rightarrow> error + 's \<Rightarrow> bool" where
  "ok_or_assert P r = (case r of Inl e \<Rightarrow> e = AssertFailed | Inr x \<Rightarrow> P x)"

text \<open>
  The well-formedness of a graph and its acyclicity in terms of the links, as the proofs
  about the passes use them, and the relation between two states with the same links.
\<close>

definition graph_ok :: "(name \<Rightarrow> nat) \<Rightarrow> nat \<Rightarrow> ('c, 'i, 'f, 'b, 't) network \<Rightarrow> bool" where
  "graph_ok rank R net =
     ((\<forall>g u d s w. edge_links net g = Some (u, d, s, w) \<longrightarrow>
          vpos s \<and> vpos w \<and> rank u < rank d \<and>
          (\<exists>ins outs. node_links net u = Some (ins, outs) \<and> g \<in> set outs) \<and>
          (\<exists>ins outs. node_links net d = Some (ins, outs) \<and> g \<in> set ins)) \<and>
      (\<forall>n ins outs. node_links net n = Some (ins, outs) \<longrightarrow>
          rank n < R \<and>
          (\<forall>g\<in>set outs. \<exists>d s w. edge_links net g = Some (n, d, s, w)) \<and>
          (\<forall>g\<in>set ins. \<exists>u s w. edge_links net g = Some (u, n, s, w)) \<and>
          (ins = [] \<longrightarrow> n \<in> set (input_nodes net))) \<and>
      (\<forall>n\<in>set (input_nodes net). node_links net n \<noteq> None))"

definition same_links ::
  "('c, 'i, 'f, 'b, 't) network \<Rightarrow> ('c, 'i, 'f, 'b, 't) network \<Rightarrow> bool" where
  "same_links net net' =
     (node_links net' = node_links net \<and> edge_links net' = edge_links net \<and>
      input_nodes net' = input_nodes net \<and> output_nodes net' = output_nodes net)"

text \<open>The invariant of the stride pass, outside the node groups \<open>X\<close> being visited.\<close>

definition stride_inv :: "name set \<Rightarrow> ('c, 'i, 'f, 'b, 't) network \<Rightarrow> bool" where
  "stride_inv X net =
     ((\<forall>n. stride_of net n \<noteq> vzero \<longrightarrow> vpos (stride_of net n)) \<and>
      (\<forall>g u d s w. edge_links net g = Some (u, d, s, w) \<and> stride_of net u \<noteq> vzero \<and> u \<notin> X \<longrightarrow>
         in_stride_of net g = stride_of net u \<and> stride_of net d = vmul (stride_of net u) s))"

definition stride_frame ::
  "('c, 'i, 'f, 'b, 't) network \<Rightarrow> ('c, 'i, 'f, 'b, 't) network \<Rightarrow> bool" where
  "stride_frame net net' =
     (same_links net net' \<and> fov_of net' = fov_of net \<and> fsize_of net' = fsize_of net \<and>
      in_fsize_of net' = in_fsize_of net \<and>
      (\<forall>m. stride_of net m \<noteq> vzero \<longrightarrow> stride_of net' m = stride_of net m) \<and>
      (\<forall>g u d s w. edge_links net g = Some (u, d, s, w) \<and> stride_of net u \<noteq> vzero \<longrightarrow>
         in_stride_of net' g = in_stride_of net g))"


definition fov_frame ::
  "('c, 'i, 'f, 'b, 't) network \<Rightarrow> ('c, 'i, 'f, 'b, 't) network \<Rightarrow> bool" where
  "fov_frame net net' =
     (same_links net net' \<and> stride_of net' = stride_of net \<and>
      in_stride_of net' = in_stride_of net \<and>
      (\<forall>m. fov_of net m \<noteq> vzero \<longrightarrow>
         fov_of net' m = fov_of net m \<and> fsize_of net' m = fsize_of net m) \<and>
      (\<forall>g u d s w. edge_links net g = Some (u, d, s, w) \<and> fov_of net u \<noteq> vzero \<longrightarrow>
         in_fsize_of net' g = in_fsize_of net g))"


subsection \<open>A concrete instance\<close>

text \<open>
  An instance of the collaborators on cubes of shape \<open>(1,1,1)\<close>, each a single real:
  convolution with a one-voxel kernel is a product, the transfer function is linear
  (\<open>phi(x,b) = x + b\<close>, \<open>phi' = 1\<close>), and a filter or bias is its value with its
  learning rate, updated by plain gradient descent. The initializer fills with ones.
\<close>

definition toyK :: "(real, unit, real \<times> real, real \<times> real, unit) kernels" where
  "toyK = \<lparr>
     convolve_sparse = (\<lambda>f W s. Inr (f * W)),
     convolve_sparse_flipped = (\<lambda>li g s. Inr (li * g)),
     convolve_sparse_inverse = (\<lambda>g W s. Inr (g * W)),
     pooling_filter = (\<lambda>f sz st. Inr (f, ())),
     pooling_backprop = (\<lambda>insz g ix. Inr g),
     cube_size = (\<lambda>c. vone),
     cube_add = (\<lambda>a b. a + b),
     cube_sum = (\<lambda>c. c),
     new_filter = (\<lambda>sz eta mom wd. (0, eta)),
     filter_W = fst,
     filter_update = (\<lambda>F dW. (fst F - snd F * dW, snd F)),
     load_filters = (\<lambda>fs sz vals. if length vals = length fs
                       then Inr (map2 (\<lambda>F v. (v, snd F)) fs vals) else Inl KernelFailure),
     new_bias = (\<lambda>eta mom wd. (0, eta)),
     bias_b = fst,
     bias_update = (\<lambda>b d. (fst b - snd b * d, snd b)),
     load_biases = (\<lambda>bs vals. if length vals = length bs
                       then Inr (map2 (\<lambda>b v. (v, snd b)) bs vals) else Inl KernelFailure),
     initialize = (\<lambda>opts n. Inr (replicate n 1)),
     get_transfer_function = (\<lambda>opts. Inr ()),
     tf_apply = (\<lambda>t c b. c + b),
     tf_apply_grad = (\<lambda>t g f. g)
   \<rparr>"

definition toy_edge :: "real filter_edge" where
  "toy_edge = \<lparr>filter_stride = vone, filter_ref = 0, last_input = None\<rparr>"

subsection \<open>Example graphs\<close>

definition node_opts :: "string \<Rightarrow> string \<Rightarrow> nat \<Rightarrow> options" where
  "node_opts nm ty sz = [(''name'', OString nm), (''type'', OString ty), (''size'', OSize sz)]"

definition edge_opts :: "string \<Rightarrow> string \<Rightarrow> string \<Rightarrow> string \<Rightarrow> options" where
  "edge_opts nm ty inp outp =
     [(''name'', OString nm), (''type'', OString ty), (''input'', OString inp),
      (''output'', OString outp)]"

text \<open>An input group feeding a summing output group through an identity edge.\<close>

definition sum_line :: "error + (real, unit, real \<times> real, real \<times> real, unit) network" where
  "sum_line =
     make_network 3 toyK
       [node_opts ''in'' ''input'' 1, node_opts ''out'' ''sum'' 1]
       [edge_opts ''e'' ''dummy'' ''in'' ''out''] vone"

text \<open>Scenario S1 of the spec: the same line with a linear transfer output group.\<close>

definition transfer_line :: "error + (real, unit, real \<times> real, real \<times> real, unit) network" where
  "transfer_line =
     make_network 3 toyK
       [node_opts ''in'' ''input'' 1,
        node_opts ''out'' ''transfer'' 1 @ [(''function'', OString ''linear'')]]
       [edge_opts ''e'' ''dummy'' ''in'' ''out''] vone"

text \<open>Two input groups feeding one summing output group.\<close>

definition two_inputs :: "error + (real, unit, real \<times> real, real \<times> real, unit) network" where
  "two_inputs =
     make_network 3 toyK
       [node_opts ''a'' ''input'' 1, node_opts ''b'' ''input'' 1, node_opts ''out'' ''sum'' 1]
       [edge_opts ''e1'' ''dummy'' ''a'' ''out'', edge_opts ''e2'' ''dummy'' ''b'' ''out''] vone"

definition conv_opts_init :: options where
  "conv_opts_init =
     edge_opts ''c'' ''conv'' ''in'' ''out'' @
       [(''size'', OVec3i vone), (''init'', OString ''uniform'')]"

definition conv_line_init :: "error + (real, unit, real \<times> real, real \<times> real, unit) network" where
  "conv_line_init =
     make_network 3 toyK
       [node_opts ''in'' ''input'' 1, node_opts ''out'' ''sum'' 1]
       [conv_opts_init] vone"

definition conv_line_filters :: "error + (real, unit, real \<times> real, real \<times> real, unit) network" where
  "conv_line_filters =
     make_network 3 toyK
       [node_opts ''in'' ''input'' 1, node_opts ''out'' ''sum'' 1]
       [edge_opts ''c'' ''conv'' ''in'' ''out'' @
          [(''size'', OVec3i vone), (''filters'', ORaw [1])]] vone"

text \<open>
  The state of the transfer line after a forward pass, and the output group it holds.
\<close>

definition after_forward :: "(real, unit, real \<times> real, real \<times> real, unit) network" where
  "after_forward =
     (case bindE transfer_line (network_forward 3 toyK [(''in'', [Some 3])]) of
        Inr r \<Rightarrow> snd r | Inl _ \<Rightarrow> empty_network)"

definition fired_transfer :: "(real, real \<times> real, unit) nodes" where
  "fired_transfer =
     \<lparr>kind = Transfer_nodes, nsize = 1, biases = [(0, 1 / 10)], func = Some (),
      inputs = [[(''e'', 0)]], outputs = [[]], received = [0], fs_buf = [Some 3],
      gs_buf = [None], nopts = node_opts ''out'' ''transfer'' 1 @ [(''function'', OString ''linear'')]\<rparr>"

text \<open>
  Scenario S4 of the spec: two input channels, three output channels and one
  convolution group, here with an initializer and no \<open>filters\<close>. \<open>cart_net\<close> is the graph
  before \<open>create_edges\<close> and \<open>cart_wired\<close> the result of wiring the convolution group on
  it.
\<close>

definition cart_opts :: options where
  "cart_opts =
     edge_opts ''c'' ''conv'' ''in'' ''out'' @
       [(''size'', OVec3i vone), (''init'', OString ''uniform'')]"

definition cart_net :: "(real, unit, real \<times> real, real \<times> real, unit) network" where
  "cart_net =
     (case bindE (foldE (add_nodes toyK)
                   [node_opts ''in'' ''input'' 2,
                    node_opts ''out'' ''transfer'' 3 @ [(''function'', OString ''linear'')]]
                   empty_network) (\<lambda>net1.
           bindE (foldE add_edges [cart_opts] net1) (init 3 vone)) of
        Inr net \<Rightarrow> net | Inl _ \<Rightarrow> empty_network)"

definition cart_wired ::
  "nat \<times> nat \<times> (real, unit, real \<times> real) edges \<times>
   (real, unit, real \<times> real, real \<times> real, unit) network" where
  "cart_wired =
     (case wire_filter_edges toyK ''c'' ''in'' ''out'' cart_opts vone cart_net of
        Inr r \<Rightarrow> r
      | Inl _ \<Rightarrow> (0, 0, \<lparr>goptions = [], gfilters = [], gedges = [], gsize = vzero\<rparr>,
                  empty_network))"

text \<open>
  Two input channels pooled into a summing group of two channels: \<open>pool_net\<close> is the
  graph before \<open>create_edges\<close>, \<open>pool_wired\<close> the result of building the pooling group
  on it, and \<open>diag_wired\<close> the result of building an identity group between the same
  two node groups.
\<close>

definition pool_opts :: options where
  "pool_opts =
     edge_opts ''p'' ''max_filter'' ''in'' ''mid'' @
       [(''size'', OVec3i (Vec3i 2 2 2)), (''stride'', OVec3i (Vec3i 2 2 2))]"

definition pool_net :: "(real, unit, real \<times> real, real \<times> real, unit) network" where
  "pool_net =
     (case bindE (foldE (add_nodes toyK)
                   [node_opts ''in'' ''input'' 2, node_opts ''mid'' ''sum'' 2]
                   empty_network) (\<lambda>net1.
           bindE (foldE add_edges [pool_opts] net1) (init 3 vone)) of
        Inr net \<Rightarrow> net | Inl _ \<Rightarrow> empty_network)"

definition pool_wired ::
  "(real, unit, real \<times> real) edges \<times> (real, unit, real \<times> real, real \<times> real, unit) network" where
  "pool_wired =
     (case max_pooling_edges ''p'' ''in'' ''mid'' pool_opts vone pool_net of
        Inr r \<Rightarrow> r
      | Inl _ \<Rightarrow> (\<lparr>goptions = [], gfilters = [], gedges = [], gsize = vzero\<rparr>, empty_network))"

definition diag_wired ::
  "(real, unit, real \<times> real) edges \<times> (real, unit, real \<times> real, real \<times> real, unit) network" where
  "diag_wired =
     (case dummy_edges ''p'' ''in'' ''mid'' pool_opts pool_net of
        Inr r \<Rightarrow> r
      | Inl _ \<Rightarrow> (\<lparr>goptions = [], gfilters = [], gedges = [], gsize = vzero\<rparr>, empty_network))"








section \<open>Properties\<close>

lemma bindE_Inr_iff:
  "bindE m f = Inr y \<longleftrightarrow> (\<exists>x. m = Inr x \<and> f x = Inr y)"
  by (cases m) (simp_all add: bindE_def)

lemma bindE_simps [simp]:
  "bindE (Inl e) f = Inl e"
  "bindE (Inr x) f = f x"
  by (simp_all add: bindE_def)

subsection \<open>Convolution edges\<close>

text \<open>
  C1. On a convolution edge, \<open>forward(f)\<close> stores \<open>f\<close> as \<open>last_input\<close> and returns
  \<open>convolve_sparse(f, W, stride)\<close> for the weights \<open>W\<close> of its filter and the stride it
  was built with; it fails exactly when the kernel does. After a forward that returned,
  \<open>last_input\<close> is the cube passed to it, and a backward on that state with gradient
  \<open>g\<close> returns \<open>convolve_sparse_inverse(g, W, stride)\<close> and leaves the filter updated
  with \<open>convolve_sparse_flipped(last_input, g, stride)\<close>, whatever the filter holds by
  then.
\<close>

theorem filter_edge_forward_backward:
  "filter_edge_forward K e F f =
     bindE (convolve_sparse K f (filter_W K F) (filter_stride e))
       (\<lambda>r. Inr (r, e\<lparr>last_input := Some f\<rparr>))
   \<and> (\<forall>r e1. filter_edge_forward K e F f = Inr (r, e1) \<longrightarrow>
         last_input e1 = Some f \<and>
         filter_edge_backward K e1 F1 g =
           bindE (convolve_sparse_flipped K f g (filter_stride e)) (\<lambda>dEdW.
           bindE (convolve_sparse_inverse K g (filter_W K F1) (filter_stride e)) (\<lambda>ret.
           Inr (ret, e1, filter_update K F1 dEdW))))"
  by (auto simp: filter_edge_forward_def filter_edge_backward_def Let_def bindE_Inr_iff)

theorem filter_edge_forward_backward_witness:
  "filter_edge_forward toyK toy_edge (3, 1/2) 2 = Inr (6, toy_edge\<lparr>last_input := Some 2\<rparr>)
   \<and> filter_edge_backward toyK (toy_edge\<lparr>last_input := Some 2\<rparr>) (3, 1/2) 5
       = Inr (15, toy_edge\<lparr>last_input := Some 2\<rparr>, (-2, 1/2))"
proof -
  have fw: "filter_edge_forward toyK toy_edge (3, 1/2) 2 = Inr (6, toy_edge\<lparr>last_input := Some 2\<rparr>)"
    by (simp add: filter_edge_forward_def toyK_def toy_edge_def)
  from filter_edge_forward_backward [of toyK toy_edge "(3, 1/2)" 2 "(3, 1/2)" 5] fw
  have "filter_edge_backward toyK (toy_edge\<lparr>last_input := Some 2\<rparr>) (3, 1/2) 5 =
           bindE (convolve_sparse_flipped toyK 2 5 (filter_stride toy_edge)) (\<lambda>dEdW.
           bindE (convolve_sparse_inverse toyK 5 (filter_W toyK (3, 1/2)) (filter_stride toy_edge)) (\<lambda>ret.
           Inr (ret, toy_edge\<lparr>last_input := Some 2\<rparr>, filter_update toyK (3, 1/2) dEdW)))"
    by blast
  then show ?thesis using fw by (simp add: toyK_def)
qed

text \<open>
  C10. When the backward of a convolution edge returns, the gradient it returns is
  \<open>convolve_sparse_inverse\<close> of the incoming gradient and the weights the filter held
  when the call began, the gradient handed to the update is \<open>convolve_sparse_flipped\<close>
  of \<open>last_input\<close> and the incoming gradient, and the returned gradient is the same
  whatever the update does to the filter.
\<close>

theorem filter_edge_backward_old_weights:
  "filter_edge_backward K e F g = Inr (ret, e1, F1) \<Longrightarrow>
     convolve_sparse_inverse K g (filter_W K F) (filter_stride e) = Inr ret
   \<and> (\<exists>li dEdW. last_input e = Some li
         \<and> convolve_sparse_flipped K li g (filter_stride e) = Inr dEdW
         \<and> F1 = filter_update K F dEdW)
   \<and> (\<forall>u. map_sum id fst (filter_edge_backward (K\<lparr>filter_update := u\<rparr>) e F g) = Inr ret)"
  by (auto simp: filter_edge_backward_def Let_def bindE_Inr_iff split: option.splits)

theorem filter_edge_backward_old_weights_witness:
  "filter_edge_backward toyK (toy_edge\<lparr>last_input := Some 2\<rparr>) (3, 1/2) 5
       = Inr (15, toy_edge\<lparr>last_input := Some 2\<rparr>, (-2, 1/2))
   \<and> convolve_sparse_inverse toyK 5 (filter_W toyK (3, 1/2)) vone = Inr 15
   \<and> (\<forall>u. map_sum id fst (filter_edge_backward (toyK\<lparr>filter_update := u\<rparr>)
              (toy_edge\<lparr>last_input := Some 2\<rparr>) (3, 1/2) 5) = Inr 15)"
proof -
  have bw: "filter_edge_backward toyK (toy_edge\<lparr>last_input := Some 2\<rparr>) (3, 1/2) 5
       = Inr (15, toy_edge\<lparr>last_input := Some 2\<rparr>, (-2, 1/2))"
    by (simp add: filter_edge_backward_def toyK_def toy_edge_def)
  from filter_edge_backward_old_weights [OF bw] bw show ?thesis
    by (simp add: toy_edge_def)
qed


subsection \<open>The store of node groups\<close>

declare edge_backward.simps [simp del] edge_forward.simps [simp del]

lemma get_nodes_Inr_iff:
  "get_nodes net n = Inr nd \<longleftrightarrow>
     (\<exists>nn. map_of (net_nodes net) n = Some nn \<and> n_nodes nn = Some nd)"
  by (auto simp: get_nodes_def get_nnodes_def split: option.splits)

lemma get_nodes_put_nodes:
  "get_nodes net n = Inr nd \<Longrightarrow> get_nodes (put_nodes n x net) n = Inr x"
  by (auto simp: get_nodes_Inr_iff put_nodes_def put_nnodes_def update_conv')

subsection \<open>Backward on a transfer group\<close>

text \<open>
  C4. When channel \<open>i\<close> of a transfer group fires on backward (the arrivals reach the
  number of out-edges, or there are none), the call is the sequence: accumulate the
  arrival and count it; multiply the accumulated gradient by the derivative at
  \<open>feature[i]\<close>; update bias \<open>i\<close> with the sum of that gradient; call backward on every
  in-edge, on a state that holds the multiplied gradient, the updated bias and still
  the feature map; and only after the last in-edge set \<open>received[i]\<close> to 0 and release
  the gradient and the feature map. So a call that returns leaves them so.
\<close>

theorem transfer_backward_fire:
  assumes nd: "get_nodes net n = Inr nd" "kind nd = Transfer_nodes"
    and i: "i < nsize nd" "i < length (received nd)" "i < length (gs_buf nd)"
    and acc: "accumulate K (received nd ! i) (gs_buf nd ! i) g = Inr (Some g0)"
    and fire: "Suc (received nd ! i) = length (outputs nd ! i) \<or> length (outputs nd ! i) = 0"
    and tf: "func nd = Some tf"
    and f0: "fs_buf nd ! i = Some f0"
  shows "nodes_backward (Suc k) K n i g net =
     (let nd1 = nd\<lparr>gs_buf := (gs_buf nd)[i := Some g0],
                    received := (received nd)[i := Suc (received nd ! i)]\<rparr>;
          g1 = tf_apply_grad K tf g0 f0;
          nd2 = nd1\<lparr>gs_buf := (gs_buf nd1)[i := Some g1]\<rparr>;
          nd3 = nd2\<lparr>biases := (biases nd2)[i := bias_update K (biases nd2 ! i) (cube_sum K g1)]\<rparr>
      in bindE (foldE (\<lambda>e s. bindE (get_nodes s n) (\<lambda>x. edge_backward k K e (gs_buf x ! i) s))
                  (inputs nd ! i) (put_nodes n nd3 net)) (\<lambda>net2.
         bindE (get_nodes net2 n) (\<lambda>nd4.
         Inr (put_nodes n (nd4\<lparr>received := (received nd4)[i := 0],
                                gs_buf := (gs_buf nd4)[i := None],
                                fs_buf := (fs_buf nd4)[i := None]\<rparr>) net2))))
    \<and> (\<forall>net'. nodes_backward (Suc k) K n i g net = Inr net' \<longrightarrow>
          (\<exists>nd4. get_nodes net' n =
                    Inr (nd4\<lparr>received := (received nd4)[i := 0],
                             gs_buf := (gs_buf nd4)[i := None],
                             fs_buf := (fs_buf nd4)[i := None]\<rparr>)))"
  using assms by (auto simp add: Let_def zi_assert_def bindE_Inr_iff get_nodes_put_nodes)

theorem transfer_backward_fire_witness:
  "get_nodes after_forward ''out'' = Inr fired_transfer
   \<and> kind fired_transfer = Transfer_nodes
   \<and> accumulate toyK (received fired_transfer ! 0) (gs_buf fired_transfer ! 0) (Some 2) = Inr (Some 2)
   \<and> length (outputs fired_transfer ! 0) = 0
   \<and> fs_buf fired_transfer ! 0 = Some 3
   \<and> map_sum id (\<lambda>net'. map_sum id (\<lambda>nd. (biases nd, received nd, gs_buf nd, fs_buf nd))
                         (get_nodes net' ''out''))
        (nodes_backward (Suc 2) toyK ''out'' 0 (Some 2) after_forward)
      = Inr (Inr ([(- (1 / 5), 1 / 10)], [0], [None], [None]))"
proof -
  have h1: "get_nodes after_forward ''out'' = Inr fired_transfer" by code_simp
  have h2: "kind fired_transfer = Transfer_nodes" by code_simp
  have h3: "0 < nsize fired_transfer" "0 < length (received fired_transfer)"
    "0 < length (gs_buf fired_transfer)" by code_simp+
  have h4: "accumulate toyK (received fired_transfer ! 0) (gs_buf fired_transfer ! 0) (Some 2)
              = Inr (Some 2)" by code_simp
  have h5: "length (outputs fired_transfer ! 0) = 0" by code_simp
  have h6: "func fired_transfer = Some ()" by code_simp
  have h7: "fs_buf fired_transfer ! 0 = Some 3" by code_simp
  note eq = transfer_backward_fire [OF h1 h2 h3 h4 disjI2 [OF h5] h6 h7, of 2, THEN conjunct1]
  have "map_sum id (\<lambda>net'. map_sum id (\<lambda>nd. (biases nd, received nd, gs_buf nd, fs_buf nd))
                         (get_nodes net' ''out''))
        (nodes_backward (Suc 2) toyK ''out'' 0 (Some 2) after_forward)
      = Inr (Inr ([(- (1 / 5), 1 / 10)], [0], [None], [None]))"
    unfolding eq by code_simp
  with h1 h2 h4 h5 h7 show ?thesis by blast
qed

subsection \<open>The feature maps returned by forward\<close>

text \<open>
  C5, evaluated at its failing input: for the line from an input group to a summing
  output group, forward returns one entry, for \<open>out\<close>, and its only cube is null; on the
  same line with a transfer output group the cube is the one computed in the pass.
\<close>

theorem summing_output_featuremaps_null:
  "map_sum id output_nodes sum_line = Inr [''out'']
   \<and> bindE sum_line (\<lambda>net. map_sum id fst (network_forward 3 toyK [(''in'', [Some 3])] net))
       = Inr [(''out'', [None])]
   \<and> bindE transfer_line (\<lambda>net. map_sum id fst (network_forward 3 toyK [(''in'', [Some 3])] net))
       = Inr [(''out'', [Some 3])]"
  by code_simp

subsection \<open>The size check of backward\<close>

text \<open>
  C6, evaluated at its failing input: the graph has the input groups \<open>a\<close> and \<open>b\<close> and
  the output group \<open>out\<close> with one channel; backward on one gradient for \<open>out\<close> fails
  its first assertion, while the same call completes on the line with one input group.
\<close>

theorem backward_checks_input_count:
  "map_sum id input_nodes two_inputs = Inr [''a'', ''b'']
   \<and> map_sum id output_nodes two_inputs = Inr [''out'']
   \<and> bindE two_inputs (\<lambda>net. map_sum id nsize (get_nodes net ''out'')) = Inr 1
   \<and> bindE two_inputs (network_backward 3 toyK [(''out'', [Some 1])]) = Inl AssertFailed
   \<and> bindE sum_line (\<lambda>net. map_sum id fst (network_backward 3 toyK [(''out'', [Some 1])] net))
       = Inr [(''in'', [])]"
  by code_simp

text \<open>The check compares the number of gradients with the number of input groups.\<close>

lemma network_backward_size_check:
  "length fout \<noteq> length (input_nodes net) \<Longrightarrow> network_backward fuel K fout net = Inl AssertFailed"
  by (simp add: network_backward_def zi_assert_def)

subsection \<open>Initial filter values\<close>

text \<open>
  C7, evaluated at its failing input: for the options of a convolution group without
  \<open>filters\<close>, the initializer returns its values, and the constructor reads the array
  that held them after deleting it; with \<open>filters\<close> given, the graph is built.
\<close>

theorem filters_read_after_delete:
  "filter_values_of toyK conv_opts_init 1 1 vone = Inl UseAfterFree
   \<and> initialize toyK conv_opts_init 1 = Inr [1]
   \<and> conv_line_init = Inl UseAfterFree
   \<and> map_sum id input_nodes conv_line_filters = Inr [''in'']"
  by code_simp

text \<open>Without \<open>filters\<close> the constructor never obtains the values.\<close>

lemma filter_values_of_no_filters:
  "\<not> contains opts ''filters'' \<Longrightarrow> filter_values_of K opts n m sz \<noteq> Inr vals"
  by (auto simp: filter_values_of_def Let_def delete_array_def string_of_raw_def bindE_Inr_iff)


subsection \<open>Wiring of the edge groups\<close>

lemma all_nodes_okD: "all_nodes_ok net \<Longrightarrow> get_nodes net n = Inr nd \<Longrightarrow> nodes_ok nd"
  by (auto simp: all_nodes_ok_def get_nodes_Inr_iff list_all_iff dest!: map_of_SomeD)

lemma set_AList_update:
  "x \<in> set (AList.update k v al) \<Longrightarrow> x = (k, v) \<or> x \<in> set al"
  by (induction al) (auto split: if_splits)

lemma all_nodes_ok_put_nodes:
  "all_nodes_ok net \<Longrightarrow> nodes_ok x \<Longrightarrow> all_nodes_ok (put_nodes n x net)"
  by (auto simp: all_nodes_ok_def put_nodes_def put_nnodes_def list_all_iff
           split: option.splits dest!: set_AList_update)

lemma group_unused_nodes:
  assumes "group_unused gn net" "get_nodes net x = Inr nd"
  shows "\<forall>l\<in>set (outputs nd) \<union> set (inputs nd). \<forall>r\<in>set l. fst r \<noteq> gn"
proof -
  from assms(2) obtain nn where "(x, nn) \<in> set (net_nodes net)" "n_nodes nn = Some nd"
    by (auto simp: get_nodes_Inr_iff dest!: map_of_SomeD)
  with assms(1) show ?thesis
    by (fastforce simp: group_unused_def list_all_iff)
qed

lemma group_unusedD:
  assumes "group_unused gn net"
  shows "r \<in> set (out_edges net x c) \<Longrightarrow> fst r \<noteq> gn"
    and "r \<in> set (in_edges net x c) \<Longrightarrow> fst r \<noteq> gn"
proof -
  show "r \<in> set (out_edges net x c) \<Longrightarrow> fst r \<noteq> gn"
  proof (cases "get_nodes net x")
    case (Inr nd)
    assume "r \<in> set (out_edges net x c)"
    with Inr group_unused_nodes [OF assms Inr] show ?thesis
      by (auto simp: out_edges_def split: if_splits)
  qed (simp add: out_edges_def)
  show "r \<in> set (in_edges net x c) \<Longrightarrow> fst r \<noteq> gn"
  proof (cases "get_nodes net x")
    case (Inr nd)
    assume "r \<in> set (in_edges net x c)"
    with Inr group_unused_nodes [OF assms Inr] show ?thesis
      by (auto simp: in_edges_def split: if_splits)
  qed (simp add: in_edges_def)
qed

lemma get_nodes_put_nodes_eq:
  "get_nodes (put_nodes n x net) m =
     (if m = n \<and> map_of (net_nodes net) n \<noteq> None then Inr x else get_nodes net m)"
  by (auto simp: get_nodes_def get_nnodes_def put_nodes_def put_nnodes_def update_conv'
           split: option.splits)

lemma get_nodes_Inr_dom: "get_nodes net n = Inr nd \<Longrightarrow> map_of (net_nodes net) n \<noteq> None"
  by (auto simp: get_nodes_Inr_iff)

lemma attach_out_edge_Inr:
  "attach_out_edge n i e net = Inr net' \<longleftrightarrow>
     (\<exists>nd. get_nodes net n = Inr nd \<and> i < nsize nd \<and>
           net' = put_nodes n (nd\<lparr>outputs := (outputs nd)[i := outputs nd ! i @ [e]]\<rparr>) net)"
  by (auto simp: attach_out_edge_def bindE_Inr_iff zi_assert_def split: if_splits)

lemma attach_in_edge_Inr:
  "attach_in_edge n i e net = Inr net' \<longleftrightarrow>
     (\<exists>nd. get_nodes net n = Inr nd \<and> kind nd \<noteq> Input_nodes \<and> i < nsize nd \<and>
           net' = put_nodes n (nd\<lparr>inputs := (inputs nd)[i := inputs nd ! i @ [e]]\<rparr>) net)"
proof (cases "get_nodes net n")
  case (Inl e)
  then show ?thesis by (simp add: attach_in_edge_def)
next
  case (Inr nd)
  then show ?thesis
    by (cases "kind nd") (auto simp: attach_in_edge_def zi_assert_def)
qed

lemma attach_out_edge_effect:
  assumes "attach_out_edge n i e net = Inr net'" "all_nodes_ok net"
  shows "out_edges net' m j = (if m = n \<and> j = i then out_edges net n i @ [e] else out_edges net m j)"
    and "in_edges net' m j = in_edges net m j"
    and "channels net' m = channels net m"
    and "all_nodes_ok net'"
    and "i < channels net n"
  using assms
proof -
  from assms obtain nd where nd: "get_nodes net n = Inr nd" "i < nsize nd"
    and net': "net' = put_nodes n (nd\<lparr>outputs := (outputs nd)[i := outputs nd ! i @ [e]]\<rparr>) net"
    by (auto simp: attach_out_edge_Inr)
  from all_nodes_okD [OF assms(2) nd(1)] have ok: "nodes_ok nd" .
  then have len: "i < length (outputs nd)" using nd(2) by (simp add: nodes_ok_def)
  show "out_edges net' m j = (if m = n \<and> j = i then out_edges net n i @ [e] else out_edges net m j)"
    using nd len by (auto simp: net' out_edges_def get_nodes_put_nodes_eq dest: get_nodes_Inr_dom)
  show "in_edges net' m j = in_edges net m j"
    using nd by (auto simp: net' in_edges_def get_nodes_put_nodes_eq)
  show "channels net' m = channels net m"
    using nd by (auto simp: net' channels_def get_nodes_put_nodes_eq)
  show "all_nodes_ok net'"
    unfolding net' using ok by (intro all_nodes_ok_put_nodes assms(2)) (simp add: nodes_ok_def)
  show "i < channels net n" using nd by (simp add: channels_def)
qed

lemma attach_in_edge_effect:
  assumes "attach_in_edge n i e net = Inr net'" "all_nodes_ok net"
  shows "in_edges net' m j = (if m = n \<and> j = i then in_edges net n i @ [e] else in_edges net m j)"
    and "out_edges net' m j = out_edges net m j"
    and "channels net' m = channels net m"
    and "all_nodes_ok net'"
    and "i < channels net n"
  using assms
proof -
  from assms obtain nd where nd: "get_nodes net n = Inr nd" "i < nsize nd" "kind nd \<noteq> Input_nodes"
    and net': "net' = put_nodes n (nd\<lparr>inputs := (inputs nd)[i := inputs nd ! i @ [e]]\<rparr>) net"
    by (auto simp: attach_in_edge_Inr)
  from all_nodes_okD [OF assms(2) nd(1)] have ok: "nodes_ok nd" .
  then have len: "i < length (inputs nd)" using nd(2,3) by (simp add: nodes_ok_def)
  show "in_edges net' m j = (if m = n \<and> j = i then in_edges net n i @ [e] else in_edges net m j)"
    using nd len by (auto simp: net' in_edges_def get_nodes_put_nodes_eq dest: get_nodes_Inr_dom)
  show "out_edges net' m j = out_edges net m j"
    using nd by (auto simp: net' out_edges_def get_nodes_put_nodes_eq)
  show "channels net' m = channels net m"
    using nd by (auto simp: net' channels_def get_nodes_put_nodes_eq)
  show "all_nodes_ok net'"
    unfolding net' using ok by (intro all_nodes_ok_put_nodes assms(2)) (simp add: nodes_ok_def)
  show "i < channels net n" using nd by (simp add: channels_def)
qed

lemma add_edge_effect:
  assumes "add_edge gn inp inn outp outn im (g, net) = Inr (g', net')" "all_nodes_ok net"
  shows "g' = g\<lparr>gedges := gedges g @ [\<lparr>in_nodes = inp, in_num = inn, out_nodes = outp,
                                         out_num = outn, impl = im\<rparr>]\<rparr>"
    and "out_edges net' m j =
           (if m = inp \<and> j = inn then out_edges net m j @ [(gn, length (gedges g))]
            else out_edges net m j)"
    and "in_edges net' m j =
           (if m = outp \<and> j = outn then in_edges net m j @ [(gn, length (gedges g))]
            else in_edges net m j)"
    and "channels net' m = channels net m"
    and "all_nodes_ok net'"
    and "inn < channels net inp" and "outn < channels net outp"
proof -
  from assms(1) obtain net1 where
    a: "attach_out_edge inp inn (gn, length (gedges g)) net = Inr net1" and
    b: "attach_in_edge outp outn (gn, length (gedges g)) net1 = Inr net'" and
    g: "g' = g\<lparr>gedges := gedges g @ [\<lparr>in_nodes = inp, in_num = inn, out_nodes = outp,
                                         out_num = outn, impl = im\<rparr>]\<rparr>"
    by (auto simp: add_edge_def new_edge_of_def bindE_Inr_iff)
  note A = attach_out_edge_effect [OF a assms(2)]
  note B = attach_in_edge_effect [OF b A(4)]
  show "g' = g\<lparr>gedges := gedges g @ [\<lparr>in_nodes = inp, in_num = inn, out_nodes = outp,
                                         out_num = outn, impl = im\<rparr>]\<rparr>" by (rule g)
  show "out_edges net' m j =
           (if m = inp \<and> j = inn then out_edges net m j @ [(gn, length (gedges g))]
            else out_edges net m j)"
    by (simp add: A(1) B(2))
  show "in_edges net' m j =
           (if m = outp \<and> j = outn then in_edges net m j @ [(gn, length (gedges g))]
            else in_edges net m j)"
    by (simp add: A(2) B(1))
  show "channels net' m = channels net m" by (simp add: A(3) B(3))
  show "all_nodes_ok net'" by (rule B(4))
  show "inn < channels net inp" by (rule A(5))
  show "outn < channels net outp" using B(5) by (simp add: A(3))
qed


lemma foldE_append: "foldE f (xs @ ys) s = bindE (foldE f xs s) (foldE f ys)"
  by (induction xs arbitrary: s) (auto simp: bindE_def split: sum.splits)

lemma foldE_snoc_Inr:
  "foldE f (xs @ [x]) s = Inr s2 \<longleftrightarrow> (\<exists>s1. foldE f xs s = Inr s1 \<and> f x s1 = Inr s2)"
  by (simp add: foldE_append bindE_Inr_iff)

lemma fold_add_edge:
  assumes step: "\<And>p st. step p st =
       add_edge gn inp (fi p) outp (fo p) (mk p (length (gedges (fst st)))) (upd (fst st), snd st)"
    and upd: "\<And>g. gedges (upd g) = gedges g"
    and run: "foldE step ps (g0, net0) = Inr (g1, net1)"
    and ok: "all_nodes_ok net0"
  shows "gedges g1 = gedges g0 @
           map (\<lambda>t. \<lparr>in_nodes = inp, in_num = fi (ps ! t), out_nodes = outp, out_num = fo (ps ! t),
                      impl = mk (ps ! t) (length (gedges g0) + t)\<rparr>) [0..<length ps]
       \<and> (\<forall>m j. out_edges net1 m j = out_edges net0 m j @
             map (\<lambda>t. (gn, length (gedges g0) + t))
               (filter (\<lambda>t. m = inp \<and> fi (ps ! t) = j) [0..<length ps]))
       \<and> (\<forall>m j. in_edges net1 m j = in_edges net0 m j @
             map (\<lambda>t. (gn, length (gedges g0) + t))
               (filter (\<lambda>t. m = outp \<and> fo (ps ! t) = j) [0..<length ps]))
       \<and> (\<forall>m. channels net1 m = channels net0 m)
       \<and> all_nodes_ok net1
       \<and> (\<forall>p\<in>set ps. fi p < channels net0 inp \<and> fo p < channels net0 outp)"
  using run
proof (induction ps arbitrary: g1 net1 rule: rev_induct)
  case Nil
  then show ?case using ok by simp
next
  case (snoc p ps)
  from snoc.prems obtain gm netm where
    pre: "foldE step ps (g0, net0) = Inr (gm, netm)" and
    last: "step p (gm, netm) = Inr (g1, net1)"
    by (auto simp: foldE_snoc_Inr)
  note IH = snoc.IH [OF pre]
  from IH have okm: "all_nodes_ok netm" by blast
  from IH have lenm: "length (gedges gm) = length (gedges g0) + length ps" by simp
  from last have add: "add_edge gn inp (fi p) outp (fo p) (mk p (length (gedges gm)))
                          (upd gm, netm) = Inr (g1, net1)"
    by (simp add: step)
  note E = add_edge_effect [OF add okm]
  have nth_ps: "\<And>t. t < length ps \<Longrightarrow> (ps @ [p]) ! t = ps ! t"
    by (simp add: nth_append)
  have map_ps: "\<And>f. map (\<lambda>t. f ((ps @ [p]) ! t) t) [0..<length ps] = map (\<lambda>t. f (ps ! t) t) [0..<length ps]"
    by (simp add: nth_append)
  have filt_ps: "\<And>P. filter (\<lambda>t. P ((ps @ [p]) ! t)) [0..<length ps] = filter (\<lambda>t. P (ps ! t)) [0..<length ps]"
    by (rule filter_cong) (simp_all add: nth_append)
  have "gedges g1 = gedges g0 @
           map (\<lambda>t. \<lparr>in_nodes = inp, in_num = fi ((ps @ [p]) ! t), out_nodes = outp,
                      out_num = fo ((ps @ [p]) ! t),
                      impl = mk ((ps @ [p]) ! t) (length (gedges g0) + t)\<rparr>) [0..<length (ps @ [p])]"
    using IH E(1) lenm by (simp add: upd nth_append)
  moreover have "\<forall>m j. out_edges net1 m j = out_edges net0 m j @
             map (\<lambda>t. (gn, length (gedges g0) + t))
               (filter (\<lambda>t. m = inp \<and> fi ((ps @ [p]) ! t) = j) [0..<length (ps @ [p])])"
    using IH E(2) lenm filt_ps [of "\<lambda>q. _ = inp \<and> fi q = _"] by (auto simp: upd)
  moreover have "\<forall>m j. in_edges net1 m j = in_edges net0 m j @
             map (\<lambda>t. (gn, length (gedges g0) + t))
               (filter (\<lambda>t. m = outp \<and> fo ((ps @ [p]) ! t) = j) [0..<length (ps @ [p])])"
    using IH E(3) lenm filt_ps [of "\<lambda>q. _ = outp \<and> fo q = _"] by (auto simp: upd)
  moreover have "\<forall>m. channels net1 m = channels net0 m"
    using IH E(4) by simp
  moreover have "all_nodes_ok net1" by (rule E(5))
  moreover have "\<forall>q\<in>set (ps @ [p]). fi q < channels net0 inp \<and> fo q < channels net0 outp"
    using IH E(6,7) by auto
  ultimately show ?case by blast
qed


lemma count_list_map_filter_upt:
  "count_list (map (\<lambda>t. (gn, t)) (filter P [0..<L])) (gn', k) =
     (if gn' = gn \<and> k < L \<and> P k then 1 else 0)"
  by (induction L) auto

lemma product_upt_nth:
  "t < n * m \<Longrightarrow> List.product [0..<n] [0..<m] ! t = (t div m, t mod m)"
proof -
  assume t: "t < n * m"
  then have m: "0 < m" by (cases m) auto
  have "t div m < n" using t m by (simp add: less_mult_imp_div_less)
  with t m show ?thesis by (simp add: product_nth)
qed


lemma count_list_fresh:
  "\<forall>r\<in>set xs. fst r \<noteq> gn \<Longrightarrow> count_list xs (gn, k) = 0"
  by (induction xs) auto

lemma wiring_counts:
  assumes fresh: "group_unused gn net"
    and outs: "\<forall>x c. out_edges net' x c = out_edges net x c @
                 map (\<lambda>t. (gn, t)) (filter (\<lambda>t. x = inp \<and> fi (ps ! t) = c) [0..<length ps])"
    and ins: "\<forall>x c. in_edges net' x c = in_edges net x c @
                 map (\<lambda>t. (gn, t)) (filter (\<lambda>t. x = outp \<and> fo (ps ! t) = c) [0..<length ps])"
    and k: "k < length ps"
  shows "count_list (out_edges net' x c) (gn, k) = (if x = inp \<and> c = fi (ps ! k) then 1 else 0)"
    and "count_list (in_edges net' x c) (gn, k) = (if x = outp \<and> c = fo (ps ! k) then 1 else 0)"
proof -
  have o: "count_list (out_edges net x c) (gn, k) = 0"
    by (rule count_list_fresh) (auto dest: group_unusedD(1) [OF fresh])
  have i: "count_list (in_edges net x c) (gn, k) = 0"
    by (rule count_list_fresh) (auto dest: group_unusedD(2) [OF fresh])
  show "count_list (out_edges net' x c) (gn, k) = (if x = inp \<and> c = fi (ps ! k) then 1 else 0)"
    using k by (auto simp: outs o count_list_map_filter_upt)
  show "count_list (in_edges net' x c) (gn, k) = (if x = outp \<and> c = fo (ps ! k) then 1 else 0)"
    using k by (auto simp: ins i count_list_map_filter_upt)
qed

lemma wire_filter_edges_Inr:
  "wire_filter_edges K gn inp outp opts strd net = Inr r \<longleftrightarrow>
     (\<exists>a b eta mom wd sz st.
        get_nodes net inp = Inr a \<and> get_nodes net outp = Inr b \<and>
        0 < nsize a \<and> 0 < nsize b \<and>
        optional_double opts ''eta'' 0.1 = Inr eta \<and>
        optional_double opts ''momentum'' 0.0 = Inr mom \<and>
        optional_double opts ''weight_decay'' 0.0 = Inr wd \<and>
        require_vec3i opts ''size'' = Inr sz \<and>
        foldE (add_filter_edge gn inp outp strd (new_filter K sz eta mom wd))
          (List.product [0..<nsize a] [0..<nsize b])
          (\<lparr>goptions = opts, gfilters = [], gedges = [], gsize = sz\<rparr>, net) = Inr st \<and>
        r = (nsize a, nsize b, st))"
  unfolding wire_filter_edges_def Let_def num_out_nodes_def num_in_nodes_def bindE_Inr_iff
    zi_assert_def
  by (simp split: if_splits) blast

lemma wire_filter_edges_wiring:
  assumes run: "wire_filter_edges K gn inp outp opts strd net = Inr (n, m, grp, net')"
    and ok: "all_nodes_ok net" and fresh: "group_unused gn net"
  shows "n = channels net inp" and "m = channels net outp"
    and "length (gedges grp) = channels net inp * channels net outp"
    and "i < channels net inp \<Longrightarrow> j < channels net outp \<Longrightarrow>
         gedges grp ! (i * channels net outp + j) =
           \<lparr>in_nodes = inp, in_num = i, out_nodes = outp, out_num = j,
            impl = Filter_edge \<lparr>filter_stride = strd, filter_ref = i * channels net outp + j,
                                last_input = None\<rparr>\<rparr>
         \<and> count_list (out_edges net' x c) (gn, i * channels net outp + j) =
             (if x = inp \<and> c = i then 1 else 0)
         \<and> count_list (in_edges net' x c) (gn, i * channels net outp + j) =
             (if x = outp \<and> c = j then 1 else 0)"
proof -
  let ?n = "channels net inp" and ?m = "channels net outp"
  let ?ps = "List.product [0..<?n] [0..<?m]"
  from run [unfolded wire_filter_edges_Inr] obtain a b F sz where
    ab: "get_nodes net inp = Inr a" "get_nodes net outp = Inr b"
    and fold0: "foldE (add_filter_edge gn inp outp strd F)
             (List.product [0..<nsize a] [0..<nsize b])
             (\<lparr>goptions = opts, gfilters = [], gedges = [], gsize = sz\<rparr>, net) = Inr (grp, net')"
    and nm0: "n = nsize a" "m = nsize b"
    by auto
  have ch: "?n = nsize a" "?m = nsize b" using ab by (simp_all add: channels_def)
  show nm: "n = ?n" "m = ?m" using nm0 ch by simp_all
  have fold: "foldE (add_filter_edge gn inp outp strd F) ?ps
             (\<lparr>goptions = opts, gfilters = [], gedges = [], gsize = sz\<rparr>, net) = Inr (grp, net')"
    using fold0 ch by simp
  have step: "\<And>p st. add_filter_edge gn inp outp strd F p st =
       add_edge gn inp (fst p) outp (snd p)
         ((\<lambda>p k. Filter_edge \<lparr>filter_stride = strd, filter_ref = k, last_input = None\<rparr>) p
            (length (gedges (fst st))))
         ((\<lambda>g. g\<lparr>gfilters := gfilters g @ [F]\<rparr>) (fst st), snd st)"
    by (simp add: add_filter_edge_def Let_def)
  note W = fold_add_edge [of "add_filter_edge gn inp outp strd F" gn inp fst outp snd _ _ ?ps,
      OF step _ fold ok, simplified]
  have len: "length ?ps = ?n * ?m" by simp
  show "length (gedges grp) = ?n * ?m"
    using W len by simp
  assume ij: "i < ?n" "j < ?m"
  let ?k = "i * ?m + j"
  have k: "?k < ?n * ?m"
  proof -
    have "?k < i * ?m + ?m" using ij by simp
    also have "\<dots> = Suc i * ?m" by simp
    also have "\<dots> \<le> ?n * ?m" using ij by (intro mult_le_mono1) simp
    finally show ?thesis .
  qed
  have nth: "?ps ! ?k = (i, j)"
    using ij by (simp add: product_upt_nth [OF k])
  have e: "gedges grp ! ?k =
           \<lparr>in_nodes = inp, in_num = i, out_nodes = outp, out_num = j,
            impl = Filter_edge \<lparr>filter_stride = strd, filter_ref = ?k, last_input = None\<rparr>\<rparr>"
    using W k nth len by simp
  have outs: "\<forall>x c. out_edges net' x c = out_edges net x c @
                 map (\<lambda>t. (gn, t)) (filter (\<lambda>t. x = inp \<and> fst (?ps ! t) = c) [0..<length ?ps])"
    using W by simp
  have ins: "\<forall>x c. in_edges net' x c = in_edges net x c @
                 map (\<lambda>t. (gn, t)) (filter (\<lambda>t. x = outp \<and> snd (?ps ! t) = c) [0..<length ?ps])"
    using W by simp
  have k': "?k < length ?ps" using k len by simp
  from wiring_counts [OF fresh outs ins k', of x c] e nth
  show "gedges grp ! ?k =
           \<lparr>in_nodes = inp, in_num = i, out_nodes = outp, out_num = j,
            impl = Filter_edge \<lparr>filter_stride = strd, filter_ref = ?k, last_input = None\<rparr>\<rparr>
         \<and> count_list (out_edges net' x c) (gn, ?k) = (if x = inp \<and> c = i then 1 else 0)
         \<and> count_list (in_edges net' x c) (gn, ?k) = (if x = outp \<and> c = j then 1 else 0)"
    by simp
qed


lemma diagonal_wiring:
  assumes fold: "foldE (\<lambda>i. add_edge gn inp i outp i im) [0..<n]
                   (\<lparr>goptions = opts, gfilters = [], gedges = [], gsize = sz\<rparr>, net) = Inr (grp, net')"
    and ok: "all_nodes_ok net" and fresh: "group_unused gn net"
  shows "length (gedges grp) = n"
    and "i < n \<Longrightarrow>
         gedges grp ! i = \<lparr>in_nodes = inp, in_num = i, out_nodes = outp, out_num = i, impl = im\<rparr>
         \<and> count_list (out_edges net' x c) (gn, i) = (if x = inp \<and> c = i then 1 else 0)
         \<and> count_list (in_edges net' x c) (gn, i) = (if x = outp \<and> c = i then 1 else 0)"
proof -
  have step: "\<And>p st. add_edge gn inp p outp p im st =
       add_edge gn inp (id p) outp (id p) ((\<lambda>p k. im) p (length (gedges (fst st))))
         (id (fst st), snd st)"
    by simp
  note W = fold_add_edge [of "\<lambda>i. add_edge gn inp i outp i im" gn inp id outp id _ id "[0..<n]",
      OF step _ fold ok, simplified]
  show "length (gedges grp) = n" using W by simp
  assume i: "i < n"
  have outs: "\<forall>x c. out_edges net' x c = out_edges net x c @
                 map (\<lambda>t. (gn, t)) (filter (\<lambda>t. x = inp \<and> id ([0..<n] ! t) = c) [0..<length [0..<n]])"
    using W by (auto intro!: arg_cong [where f = "map _"] filter_cong)
  have ins: "\<forall>x c. in_edges net' x c = in_edges net x c @
                 map (\<lambda>t. (gn, t)) (filter (\<lambda>t. x = outp \<and> id ([0..<n] ! t) = c) [0..<length [0..<n]])"
    using W by (auto intro!: arg_cong [where f = "map _"] filter_cong)
  have i': "i < length [0..<n]" using i by simp
  from wiring_counts [OF fresh outs ins i', of x c] W i
  show "gedges grp ! i = \<lparr>in_nodes = inp, in_num = i, out_nodes = outp, out_num = i, impl = im\<rparr>
         \<and> count_list (out_edges net' x c) (gn, i) = (if x = inp \<and> c = i then 1 else 0)
         \<and> count_list (in_edges net' x c) (gn, i) = (if x = outp \<and> c = i then 1 else 0)"
    by simp
qed

lemma dummy_edges_Inr:
  assumes "dummy_edges gn inp outp opts net = Inr (grp, net')"
  shows "channels net inp = channels net outp"
    and "foldE (\<lambda>i. add_edge gn inp i outp i Dummy_edge) [0..<channels net inp]
           (\<lparr>goptions = opts, gfilters = [], gedges = [], gsize = vzero\<rparr>, net) = Inr (grp, net')"
  using assms
  by (auto simp: dummy_edges_def bindE_Inr_iff Let_def channels_def num_out_nodes_def
      num_in_nodes_def zi_assert_def split: if_splits)

lemma max_pooling_edges_Inr:
  assumes "max_pooling_edges gn inp outp opts strd net = Inr (grp, net')"
  shows "channels net inp = channels net outp"
    and "\<exists>sz. require_vec3i opts ''size'' = Inr sz \<and>
           foldE (\<lambda>i. add_edge gn inp i outp i
                        (Max_pooling_edge \<lparr>mp_filter_size = sz, mp_filter_stride = strd,
                                           indices = None, insize = vzero\<rparr>))
             [0..<channels net inp]
             (\<lparr>goptions = opts, gfilters = [], gedges = [], gsize = vzero\<rparr>, net) = Inr (grp, net')"
  using assms
  by (auto simp: max_pooling_edges_def bindE_Inr_iff Let_def channels_def num_out_nodes_def
      num_in_nodes_def zi_assert_def split: if_splits)

lemma diagonal_needs_equal_sizes:
  assumes "get_nodes net inp = Inr a" "get_nodes net outp = Inr b" "nsize a \<noteq> nsize b"
  shows "dummy_edges gn inp outp opts net = Inl AssertFailed"
    and "max_pooling_edges gn inp outp opts strd net = Inl AssertFailed"
  using assms
  by (simp_all add: dummy_edges_def max_pooling_edges_def num_out_nodes_def num_in_nodes_def
      zi_assert_def)



lemma filter_edges_Inr:
  assumes "filter_edges K gn inp outp opts strd net = Inr (grp, net')"
  shows "\<exists>n m g1. wire_filter_edges K gn inp outp opts strd net = Inr (n, m, g1, net') \<and>
           gedges grp = gedges g1"
proof -
  from assms obtain wired where w: "wire_filter_edges K gn inp outp opts strd net = Inr wired"
    and g: "gedges grp = gedges (fst (snd (snd wired)))" "net' = snd (snd (snd wired))"
    unfolding filter_edges_def Let_def bindE_Inr_iff by auto
  obtain n m g1 n1 where "wired = (n, m, g1, n1)" by (cases wired) auto
  with w g show ?thesis by auto
qed

text \<open>An edge can be added where both channels exist and the downstream group takes in-edges.\<close>

lemma add_edge_succeeds:
  assumes "get_nodes net inp = Inr a" "inn < nsize a" "get_nodes net outp = Inr b"
    "outn < nsize b" "kind b \<noteq> Input_nodes"
  shows "\<exists>g' net' a' b'. add_edge gn inp inn outp outn im (g, net) = Inr (g', net') \<and>
           get_nodes net' inp = Inr a' \<and> nsize a' = nsize a \<and>
           get_nodes net' outp = Inr b' \<and> nsize b' = nsize b \<and> kind b' = kind b"
proof -
  define net1 where
    "net1 = put_nodes inp (a\<lparr>outputs := (outputs a)[inn := outputs a ! inn @ [(gn, length (gedges g))]]\<rparr>) net"
  have 1: "attach_out_edge inp inn (gn, length (gedges g)) net = Inr net1"
    using assms(1,2) by (simp add: attach_out_edge_Inr net1_def)
  have d: "map_of (net_nodes net) inp \<noteq> None" by (rule get_nodes_Inr_dom [OF assms(1)])
  obtain b1 where b1: "get_nodes net1 outp = Inr b1" "nsize b1 = nsize b" "kind b1 = kind b"
    using assms(1,3) d by (cases "outp = inp") (auto simp: net1_def get_nodes_put_nodes_eq)
  obtain a1 where a1: "get_nodes net1 inp = Inr a1" "nsize a1 = nsize a"
    using d by (auto simp: net1_def get_nodes_put_nodes_eq)
  define net2 where
    "net2 = put_nodes outp (b1\<lparr>inputs := (inputs b1)[outn := inputs b1 ! outn @ [(gn, length (gedges g))]]\<rparr>) net1"
  have 2: "attach_in_edge outp outn (gn, length (gedges g)) net1 = Inr net2"
    using b1 assms(4,5) by (simp add: attach_in_edge_Inr net2_def)
  have d1: "map_of (net_nodes net1) outp \<noteq> None" by (rule get_nodes_Inr_dom [OF b1(1)])
  obtain a2 where a2: "get_nodes net2 inp = Inr a2" "nsize a2 = nsize a"
    using a1 b1 d1 by (cases "outp = inp") (auto simp: net2_def get_nodes_put_nodes_eq)
  obtain b2 where b2: "get_nodes net2 outp = Inr b2" "nsize b2 = nsize b" "kind b2 = kind b"
    using b1 d1 by (auto simp: net2_def get_nodes_put_nodes_eq)
  have "add_edge gn inp inn outp outn im (g, net) =
          Inr (g\<lparr>gedges := gedges g @ [\<lparr>in_nodes = inp, in_num = inn, out_nodes = outp,
                                         out_num = outn, impl = im\<rparr>]\<rparr>, net2)"
    using 1 2 by (simp add: add_edge_def new_edge_of_def)
  with a2 b2 show ?thesis by blast
qed

lemma fold_add_edge_succeeds:
  assumes step: "\<And>p st. step p st =
       add_edge gn inp (fi p) outp (fo p) (mk p (length (gedges (fst st)))) (upd (fst st), snd st)"
    and nodes: "get_nodes net inp = Inr a" "get_nodes net outp = Inr b" "kind b \<noteq> Input_nodes"
    and range: "\<forall>p\<in>set ps. fi p < nsize a \<and> fo p < nsize b"
  shows "\<exists>r. foldE step ps (g, net) = Inr r"
  using nodes range
proof (induction ps arbitrary: g net a b)
  case Nil
  then show ?case by simp
next
  case (Cons p ps)
  from Cons.prems have r: "fi p < nsize a" "fo p < nsize b" by simp_all
  from add_edge_succeeds [OF Cons.prems(1) r(1) Cons.prems(2) r(2) Cons.prems(3),
      of gn "mk p (length (gedges g))" "upd g"]
  obtain g' net' a' b' where
    run: "add_edge gn inp (fi p) outp (fo p) (mk p (length (gedges g))) (upd g, net) = Inr (g', net')"
    and a': "get_nodes net' inp = Inr a'" "nsize a' = nsize a"
    and b': "get_nodes net' outp = Inr b'" "nsize b' = nsize b" "kind b' = kind b"
    by blast
  have "\<forall>p\<in>set ps. fi p < nsize a' \<and> fo p < nsize b'"
    using Cons.prems(4) a'(2) b'(2) by simp
  from Cons.IH [OF a'(1) b'(1) _ this, of g'] Cons.prems(3) b'(3)
  obtain r where r: "foldE step ps (g', net') = Inr r" by auto
  have "step p (g, net) = Inr (g', net')" using run by (simp add: step)
  with r show ?case by simp
qed

lemma diagonal_succeeds:
  assumes "get_nodes net inp = Inr a" "get_nodes net outp = Inr b" "kind b \<noteq> Input_nodes"
    "nsize a = nsize b"
  shows "\<exists>r. dummy_edges gn inp outp opts net = Inr r"
    and "require_vec3i opts ''size'' = Inr sz \<Longrightarrow>
         \<exists>r. max_pooling_edges gn inp outp opts strd net = Inr r"
proof -
  have range: "\<forall>p\<in>set [0..<nsize a]. id p < nsize a \<and> id p < nsize b"
    using assms(4) by simp
  have step: "\<And>im p st. add_edge gn inp p outp p im st =
       add_edge gn inp (id p) outp (id p) ((\<lambda>p k. im) p (length (gedges (fst st))))
         (id (fst st), snd st)"
    by simp
  note F = fold_add_edge_succeeds [of "\<lambda>i. add_edge gn inp i outp i _" gn inp id outp id _ id,
      OF step assms(1,2,3) range]
  show "\<exists>r. dummy_edges gn inp outp opts net = Inr r"
    using assms F [of Dummy_edge]
    by (simp add: dummy_edges_def num_out_nodes_def num_in_nodes_def zi_assert_def)
  assume "require_vec3i opts ''size'' = Inr sz"
  then show "\<exists>r. max_pooling_edges gn inp outp opts strd net = Inr r"
    using assms F [of "Max_pooling_edge \<lparr>mp_filter_size = sz, mp_filter_stride = strd,
                                         indices = None, insize = vzero\<rparr>"]
    by (simp add: max_pooling_edges_def num_out_nodes_def num_in_nodes_def zi_assert_def)
qed

lemma wire_filter_edges_succeeds:
  assumes "get_nodes net inp = Inr a" "get_nodes net outp = Inr b" "kind b \<noteq> Input_nodes"
    "0 < nsize a" "0 < nsize b"
    "optional_double opts ''eta'' 0.1 = Inr eta"
    "optional_double opts ''momentum'' 0.0 = Inr mom"
    "optional_double opts ''weight_decay'' 0.0 = Inr wd"
    "require_vec3i opts ''size'' = Inr sz"
  shows "\<exists>r. wire_filter_edges K gn inp outp opts strd net = Inr r"
proof -
  have range: "\<forall>p\<in>set (List.product [0..<nsize a] [0..<nsize b]). fst p < nsize a \<and> snd p < nsize b"
    by auto
  have step: "\<And>F p st. add_filter_edge gn inp outp strd F p st =
       add_edge gn inp (fst p) outp (snd p)
         ((\<lambda>p k. Filter_edge \<lparr>filter_stride = strd, filter_ref = k, last_input = None\<rparr>) p
            (length (gedges (fst st))))
         ((\<lambda>g. g\<lparr>gfilters := gfilters g @ [F]\<rparr>) (fst st), snd st)"
    by (simp add: add_filter_edge_def Let_def)
  from fold_add_edge_succeeds [of "add_filter_edge gn inp outp strd (new_filter K sz eta mom wd)"
      gn inp fst outp snd _ _, OF step assms(1,2,3) range]
  obtain st where "foldE (add_filter_edge gn inp outp strd (new_filter K sz eta mom wd))
          (List.product [0..<nsize a] [0..<nsize b])
          (\<lparr>goptions = opts, gfilters = [], gedges = [], gsize = sz\<rparr>, net) = Inr st"
    by blast
  with assms show ?thesis
    unfolding wire_filter_edges_Inr by blast
qed


text \<open>
  C8. On a network whose node groups have one slot per channel and to which no edge of
  the group is attached yet: the loops of a convolution group between an upstream
  group of \<open>n\<close> channels and a downstream group of \<open>m\<close> channels leave \<open>n * m\<close> edges,
  the edge in slot \<open>i * m + j\<close> goes from channel \<open>i\<close> to channel \<open>j\<close>, and it occurs once
  in \<open>out_edges[i]\<close> of the upstream group, once in \<open>in_edges[j]\<close> of the downstream
  group and nowhere else, whether or not the constructor then obtains the filter
  values; an identity or pooling group holds \<open>n\<close> edges of its kind, slot \<open>i\<close> wiring
  channel \<open>i\<close> to channel \<open>i\<close> with the same single occurrences; its construction fails
  the assertion when the two groups differ in their number of channels; and the
  wiring succeeds whenever the downstream group is not an input group, the channel
  counts are equal (identity, pooling) or positive (convolution) and the options
  needed are present.
\<close>

theorem edge_group_wiring:
  assumes ok: "all_nodes_ok net" and fresh: "group_unused gn net"
  shows "(wire_filter_edges K gn inp outp opts strd net = Inr (n, m, grp, net') \<or>
          filter_edges K gn inp outp opts strd net = Inr (grp, net') \<longrightarrow>
            length (gedges grp) = channels net inp * channels net outp \<and>
            (\<forall>i<channels net inp. \<forall>j<channels net outp.
               gedges grp ! (i * channels net outp + j) =
                 \<lparr>in_nodes = inp, in_num = i, out_nodes = outp, out_num = j,
                  impl = Filter_edge \<lparr>filter_stride = strd,
                                      filter_ref = i * channels net outp + j,
                                      last_input = None\<rparr>\<rparr> \<and>
               (\<forall>x c. count_list (out_edges net' x c) (gn, i * channels net outp + j) =
                        (if x = inp \<and> c = i then 1 else 0) \<and>
                      count_list (in_edges net' x c) (gn, i * channels net outp + j) =
                        (if x = outp \<and> c = j then 1 else 0))))
       \<and> (wire_filter_edges K gn inp outp opts strd net = Inr (n, m, grp, net') \<longrightarrow>
            n = channels net inp \<and> m = channels net outp)
       \<and> (dummy_edges gn inp outp opts net = Inr (grp, net') \<or>
          max_pooling_edges gn inp outp opts strd net = Inr (grp, net') \<longrightarrow>
            channels net inp = channels net outp \<and>
            length (gedges grp) = channels net inp \<and>
            (\<forall>i<channels net inp.
               in_nodes (gedges grp ! i) = inp \<and> in_num (gedges grp ! i) = i \<and>
               out_nodes (gedges grp ! i) = outp \<and> out_num (gedges grp ! i) = i \<and>
               (\<forall>x c. count_list (out_edges net' x c) (gn, i) =
                        (if x = inp \<and> c = i then 1 else 0) \<and>
                      count_list (in_edges net' x c) (gn, i) =
                        (if x = outp \<and> c = i then 1 else 0))))
       \<and> (\<forall>a b. get_nodes net inp = Inr a \<and> get_nodes net outp = Inr b \<and> nsize a \<noteq> nsize b \<longrightarrow>
            dummy_edges gn inp outp opts net = Inl AssertFailed \<and>
            max_pooling_edges gn inp outp opts strd net = Inl AssertFailed)
       \<and> (\<forall>a b. get_nodes net inp = Inr a \<and> get_nodes net outp = Inr b \<and>
                kind b \<noteq> Input_nodes \<longrightarrow>
            (nsize a = nsize b \<longrightarrow>
               (\<exists>r. dummy_edges gn inp outp opts net = Inr r) \<and>
               ((\<exists>sz. require_vec3i opts ''size'' = Inr sz) \<longrightarrow>
                  (\<exists>r. max_pooling_edges gn inp outp opts strd net = Inr r))) \<and>
            (0 < nsize a \<and> 0 < nsize b \<and>
             (\<exists>x. optional_double opts ''eta'' 0.1 = Inr x) \<and>
             (\<exists>x. optional_double opts ''momentum'' 0.0 = Inr x) \<and>
             (\<exists>x. optional_double opts ''weight_decay'' 0.0 = Inr x) \<and>
             (\<exists>sz. require_vec3i opts ''size'' = Inr sz) \<longrightarrow>
               (\<exists>r. wire_filter_edges K gn inp outp opts strd net = Inr r)))
       \<and> (\<forall>i<channels net inp.
            (dummy_edges gn inp outp opts net = Inr (grp, net') \<longrightarrow>
               impl (gedges grp ! i) = Dummy_edge) \<and>
            (max_pooling_edges gn inp outp opts strd net = Inr (grp, net') \<longrightarrow>
               (\<exists>sz. require_vec3i opts ''size'' = Inr sz \<and>
                  impl (gedges grp ! i) =
                    Max_pooling_edge \<lparr>mp_filter_size = sz, mp_filter_stride = strd,
                                       indices = None, insize = vzero\<rparr>)))"
  (is "?A \<and> ?B \<and> ?C \<and> ?D \<and> ?E \<and> ?F")
proof -
  have A: ?A
  proof (intro impI)
    assume "wire_filter_edges K gn inp outp opts strd net = Inr (n, m, grp, net') \<or>
          filter_edges K gn inp outp opts strd net = Inr (grp, net')"
    then obtain n1 m1 g1 where
      run: "wire_filter_edges K gn inp outp opts strd net = Inr (n1, m1, g1, net')"
      and g: "gedges grp = gedges g1"
      using filter_edges_Inr [of K gn inp outp opts strd net grp net'] by blast
    note W = wire_filter_edges_wiring [OF run ok fresh]
    show "length (gedges grp) = channels net inp * channels net outp \<and>
            (\<forall>i<channels net inp. \<forall>j<channels net outp.
               gedges grp ! (i * channels net outp + j) =
                 \<lparr>in_nodes = inp, in_num = i, out_nodes = outp, out_num = j,
                  impl = Filter_edge \<lparr>filter_stride = strd,
                                      filter_ref = i * channels net outp + j,
                                      last_input = None\<rparr>\<rparr> \<and>
               (\<forall>x c. count_list (out_edges net' x c) (gn, i * channels net outp + j) =
                        (if x = inp \<and> c = i then 1 else 0) \<and>
                      count_list (in_edges net' x c) (gn, i * channels net outp + j) =
                        (if x = outp \<and> c = j then 1 else 0)))"
      unfolding g using W(3) W(4) by blast
  qed
  have B: ?B
    using wire_filter_edges_wiring(1,2) [OF _ ok fresh] by blast
  have C: ?C
  proof (intro impI)
    assume run: "dummy_edges gn inp outp opts net = Inr (grp, net') \<or>
          max_pooling_edges gn inp outp opts strd net = Inr (grp, net')"
    have "\<exists>im. channels net inp = channels net outp \<and>
          foldE (\<lambda>i. add_edge gn inp i outp i im) [0..<channels net inp]
             (\<lparr>goptions = opts, gfilters = [], gedges = [], gsize = vzero\<rparr>, net) = Inr (grp, net')"
      using run
    proof
      assume d: "dummy_edges gn inp outp opts net = Inr (grp, net')"
      show ?thesis
        using dummy_edges_Inr [OF d] by blast
    next
      assume m: "max_pooling_edges gn inp outp opts strd net = Inr (grp, net')"
      from max_pooling_edges_Inr(2) [OF m] obtain sz where
        "foldE (\<lambda>i. add_edge gn inp i outp i
                        (Max_pooling_edge \<lparr>mp_filter_size = sz, mp_filter_stride = strd,
                                           indices = None, insize = vzero\<rparr>))
             [0..<channels net inp]
             (\<lparr>goptions = opts, gfilters = [], gedges = [], gsize = vzero\<rparr>, net) = Inr (grp, net')"
        by blast
      with max_pooling_edges_Inr(1) [OF m] show ?thesis by blast
    qed
    then obtain im where
      eq: "channels net inp = channels net outp" and
      fold: "foldE (\<lambda>i. add_edge gn inp i outp i im) [0..<channels net inp]
             (\<lparr>goptions = opts, gfilters = [], gedges = [], gsize = vzero\<rparr>, net) = Inr (grp, net')"
      by blast
    note D = diagonal_wiring [OF fold ok fresh]
    have "\<forall>i<channels net inp.
               in_nodes (gedges grp ! i) = inp \<and> in_num (gedges grp ! i) = i \<and>
               out_nodes (gedges grp ! i) = outp \<and> out_num (gedges grp ! i) = i \<and>
               (\<forall>x c. count_list (out_edges net' x c) (gn, i) =
                        (if x = inp \<and> c = i then 1 else 0) \<and>
                      count_list (in_edges net' x c) (gn, i) =
                        (if x = outp \<and> c = i then 1 else 0))"
    proof (intro allI impI conjI)
      fix i assume i: "i < channels net inp"
      show "in_nodes (gedges grp ! i) = inp" "in_num (gedges grp ! i) = i"
        "out_nodes (gedges grp ! i) = outp" "out_num (gedges grp ! i) = i"
        using D(2) [OF i] by simp_all
      fix x c
      show "count_list (out_edges net' x c) (gn, i) = (if x = inp \<and> c = i then 1 else 0)"
        "count_list (in_edges net' x c) (gn, i) = (if x = outp \<and> c = i then 1 else 0)"
        using D(2) [OF i, of x c] by simp_all
    qed
    with eq D(1) show "channels net inp = channels net outp \<and>
            length (gedges grp) = channels net inp \<and>
            (\<forall>i<channels net inp.
               in_nodes (gedges grp ! i) = inp \<and> in_num (gedges grp ! i) = i \<and>
               out_nodes (gedges grp ! i) = outp \<and> out_num (gedges grp ! i) = i \<and>
               (\<forall>x c. count_list (out_edges net' x c) (gn, i) =
                        (if x = inp \<and> c = i then 1 else 0) \<and>
                      count_list (in_edges net' x c) (gn, i) =
                        (if x = outp \<and> c = i then 1 else 0)))"
      by (intro conjI)
  qed
  have D: ?D
    using diagonal_needs_equal_sizes by blast
  have E: ?E
  proof (intro allI impI)
    fix a b
    assume h: "get_nodes net inp = Inr a \<and> get_nodes net outp = Inr b \<and> kind b \<noteq> Input_nodes"
    then have ab: "get_nodes net inp = Inr a" "get_nodes net outp = Inr b" "kind b \<noteq> Input_nodes"
      by simp_all
    have 1: "nsize a = nsize b \<longrightarrow>
               (\<exists>r. dummy_edges gn inp outp opts net = Inr r) \<and>
               ((\<exists>sz. require_vec3i opts ''size'' = Inr sz) \<longrightarrow>
                  (\<exists>r. max_pooling_edges gn inp outp opts strd net = Inr r))"
      using diagonal_succeeds [OF ab] by blast
    have 2: "0 < nsize a \<and> 0 < nsize b \<and>
             (\<exists>x. optional_double opts ''eta'' 0.1 = Inr x) \<and>
             (\<exists>x. optional_double opts ''momentum'' 0.0 = Inr x) \<and>
             (\<exists>x. optional_double opts ''weight_decay'' 0.0 = Inr x) \<and>
             (\<exists>sz. require_vec3i opts ''size'' = Inr sz) \<longrightarrow>
               (\<exists>r. wire_filter_edges K gn inp outp opts strd net = Inr r)"
      using wire_filter_edges_succeeds [OF ab] by blast
    from 1 2 show "(nsize a = nsize b \<longrightarrow>
               (\<exists>r. dummy_edges gn inp outp opts net = Inr r) \<and>
               ((\<exists>sz. require_vec3i opts ''size'' = Inr sz) \<longrightarrow>
                  (\<exists>r. max_pooling_edges gn inp outp opts strd net = Inr r))) \<and>
            (0 < nsize a \<and> 0 < nsize b \<and>
             (\<exists>x. optional_double opts ''eta'' 0.1 = Inr x) \<and>
             (\<exists>x. optional_double opts ''momentum'' 0.0 = Inr x) \<and>
             (\<exists>x. optional_double opts ''weight_decay'' 0.0 = Inr x) \<and>
             (\<exists>sz. require_vec3i opts ''size'' = Inr sz) \<longrightarrow>
               (\<exists>r. wire_filter_edges K gn inp outp opts strd net = Inr r))"
      by (rule conjI)
  qed
  have F: ?F
  proof (intro allI impI conjI)
    fix i assume i: "i < channels net inp"
    assume d: "dummy_edges gn inp outp opts net = Inr (grp, net')"
    from diagonal_wiring(2) [OF dummy_edges_Inr(2) [OF d] ok fresh i]
    show "impl (gedges grp ! i) = Dummy_edge" by simp
  next
    fix i assume i: "i < channels net inp"
    assume m: "max_pooling_edges gn inp outp opts strd net = Inr (grp, net')"
    from max_pooling_edges_Inr(2) [OF m] obtain sz where
      sz: "require_vec3i opts ''size'' = Inr sz" and
      fold: "foldE (\<lambda>i. add_edge gn inp i outp i
                        (Max_pooling_edge \<lparr>mp_filter_size = sz, mp_filter_stride = strd,
                                           indices = None, insize = vzero\<rparr>))
             [0..<channels net inp]
             (\<lparr>goptions = opts, gfilters = [], gedges = [], gsize = vzero\<rparr>, net) = Inr (grp, net')"
      by blast
    from diagonal_wiring(2) [OF fold ok fresh i] sz
    show "\<exists>sz. require_vec3i opts ''size'' = Inr sz \<and>
                  impl (gedges grp ! i) =
                    Max_pooling_edge \<lparr>mp_filter_size = sz, mp_filter_stride = strd,
                                       indices = None, insize = vzero\<rparr>"
      by simp
  qed
  from A B C D E F show ?thesis by (intro conjI)
qed

theorem edge_group_wiring_witness:
  "all_nodes_ok cart_net \<and> group_unused ''c'' cart_net
   \<and> \<not> contains cart_opts ''filters''
   \<and> wire_filter_edges toyK ''c'' ''in'' ''out'' cart_opts vone cart_net
       = Inr (2, 3, fst (snd (snd cart_wired)), snd (snd (snd cart_wired)))
   \<and> channels cart_net ''in'' = 2 \<and> channels cart_net ''out'' = 3
   \<and> length (gedges (fst (snd (snd cart_wired)))) = 6
   \<and> in_num (gedges (fst (snd (snd cart_wired))) ! 5) = 1
   \<and> out_num (gedges (fst (snd (snd cart_wired))) ! 5) = 2
   \<and> count_list (out_edges (snd (snd (snd cart_wired))) ''in'' 1) (''c'', 5) = 1
   \<and> count_list (in_edges (snd (snd (snd cart_wired))) ''out'' 2) (''c'', 5) = 1
   \<and> count_list (out_edges (snd (snd (snd cart_wired))) ''in'' 0) (''c'', 5) = 0
   \<and> dummy_edges ''c'' ''in'' ''out'' cart_opts cart_net = Inl AssertFailed
   \<and> all_nodes_ok pool_net \<and> group_unused ''p'' pool_net
   \<and> channels pool_net ''in'' = 2 \<and> channels pool_net ''mid'' = 2
   \<and> max_pooling_edges ''p'' ''in'' ''mid'' pool_opts vone pool_net
       = Inr (fst pool_wired, snd pool_wired)
   \<and> length (gedges (fst pool_wired)) = 2
   \<and> in_num (gedges (fst pool_wired) ! 1) = 1 \<and> out_num (gedges (fst pool_wired) ! 1) = 1
   \<and> impl (gedges (fst pool_wired) ! 1) =
       Max_pooling_edge \<lparr>mp_filter_size = Vec3i 2 2 2, mp_filter_stride = vone,
                          indices = None, insize = vzero\<rparr>
   \<and> count_list (out_edges (snd pool_wired) ''in'' 1) (''p'', 1) = 1
   \<and> count_list (in_edges (snd pool_wired) ''mid'' 1) (''p'', 1) = 1
   \<and> count_list (in_edges (snd pool_wired) ''mid'' 0) (''p'', 1) = 0
   \<and> dummy_edges ''p'' ''in'' ''mid'' pool_opts pool_net = Inr (fst diag_wired, snd diag_wired)
   \<and> length (gedges (fst diag_wired)) = 2
   \<and> impl (gedges (fst diag_wired) ! 1) = Dummy_edge
   \<and> count_list (out_edges (snd diag_wired) ''in'' 1) (''p'', 1) = 1
   \<and> count_list (in_edges (snd diag_wired) ''mid'' 1) (''p'', 1) = 1"
proof -
  let ?cg = "fst (snd (snd cart_wired))" and ?cn = "snd (snd (snd cart_wired))"
  have ok: "all_nodes_ok cart_net" by code_simp
  have fresh: "group_unused ''c'' cart_net" by code_simp
  have nf: "\<not> contains cart_opts ''filters''" by code_simp
  have n: "channels cart_net ''in'' = 2" by code_simp
  have m: "channels cart_net ''out'' = 3" by code_simp
  have run: "wire_filter_edges toyK ''c'' ''in'' ''out'' cart_opts vone cart_net
       = Inr (2, 3, ?cg, ?cn)" by code_simp
  have a: "get_nodes cart_net ''in'' = Inr (case get_nodes cart_net ''in'' of Inr x \<Rightarrow> x)"
    "get_nodes cart_net ''out'' = Inr (case get_nodes cart_net ''out'' of Inr x \<Rightarrow> x)"
    "nsize (case get_nodes cart_net ''in'' of Inr x \<Rightarrow> x) \<noteq>
     nsize (case get_nodes cart_net ''out'' of Inr x \<Rightarrow> x)"
    by code_simp+
  note W = edge_group_wiring [OF ok fresh, of toyK "''in''" "''out''" cart_opts vone 2 3 ?cg ?cn]
  have c1: "length (gedges ?cg) = 6"
    using W [THEN conjunct1, rule_format, OF disjI1 [OF run], THEN conjunct1] n m by simp
  have i5: "(5::nat) = 1 * 3 + 2" by simp
  have c2: "in_num (gedges ?cg ! 5) = 1 \<and> out_num (gedges ?cg ! 5) = 2
    \<and> count_list (out_edges ?cn ''in'' 1) (''c'', 5) = 1
    \<and> count_list (in_edges ?cn ''out'' 2) (''c'', 5) = 1
    \<and> count_list (out_edges ?cn ''in'' 0) (''c'', 5) = 0"
    using W [THEN conjunct1, rule_format, OF disjI1 [OF run], THEN conjunct2, rule_format, of 1 2]
    unfolding n m i5 [symmetric] by simp
  have c3: "dummy_edges ''c'' ''in'' ''out'' cart_opts cart_net = Inl AssertFailed"
    using W [THEN conjunct2, THEN conjunct2, THEN conjunct2, THEN conjunct1] a by blast
  have okp: "all_nodes_ok pool_net" by code_simp
  have freshp: "group_unused ''p'' pool_net" by code_simp
  have np: "channels pool_net ''in'' = 2" by code_simp
  have mp: "channels pool_net ''mid'' = 2" by code_simp
  have prun: "max_pooling_edges ''p'' ''in'' ''mid'' pool_opts vone pool_net
       = Inr (fst pool_wired, snd pool_wired)" by code_simp
  have drun: "dummy_edges ''p'' ''in'' ''mid'' pool_opts pool_net
       = Inr (fst diag_wired, snd diag_wired)" by code_simp
  have sz: "require_vec3i pool_opts ''size'' = Inr (Vec3i 2 2 2)" by code_simp
  note P = edge_group_wiring [OF okp freshp, of toyK "''in''" "''mid''" pool_opts vone 0 0
      "fst pool_wired" "snd pool_wired"]
  note D = edge_group_wiring [OF okp freshp, of toyK "''in''" "''mid''" pool_opts vone 0 0
      "fst diag_wired" "snd diag_wired"]
  note PC = P [THEN conjunct2, THEN conjunct2, THEN conjunct1, rule_format, OF disjI2 [OF prun]]
  note DC = D [THEN conjunct2, THEN conjunct2, THEN conjunct1, rule_format, OF disjI1 [OF drun]]
  have one: "(1::nat) < channels pool_net ''in''" using np by simp
  have p1: "length (gedges (fst pool_wired)) = 2" using PC np by simp
  have p2: "in_num (gedges (fst pool_wired) ! 1) = 1 \<and> out_num (gedges (fst pool_wired) ! 1) = 1
    \<and> count_list (out_edges (snd pool_wired) ''in'' 1) (''p'', 1) = 1
    \<and> count_list (in_edges (snd pool_wired) ''mid'' 1) (''p'', 1) = 1
    \<and> count_list (in_edges (snd pool_wired) ''mid'' 0) (''p'', 1) = 0"
    using PC [THEN conjunct2, THEN conjunct2, rule_format, OF one] by simp
  have p3: "impl (gedges (fst pool_wired) ! 1) =
       Max_pooling_edge \<lparr>mp_filter_size = Vec3i 2 2 2, mp_filter_stride = vone,
                          indices = None, insize = vzero\<rparr>"
    using P [THEN conjunct2, THEN conjunct2, THEN conjunct2, THEN conjunct2, THEN conjunct2,
        rule_format, OF one, THEN conjunct2, rule_format, OF prun] sz by auto
  have d1: "length (gedges (fst diag_wired)) = 2" using DC np by simp
  have d2: "count_list (out_edges (snd diag_wired) ''in'' 1) (''p'', 1) = 1
    \<and> count_list (in_edges (snd diag_wired) ''mid'' 1) (''p'', 1) = 1"
    using DC [THEN conjunct2, THEN conjunct2, rule_format, OF one] by simp
  have d3: "impl (gedges (fst diag_wired) ! 1) = Dummy_edge"
    using D [THEN conjunct2, THEN conjunct2, THEN conjunct2, THEN conjunct2, THEN conjunct2,
        rule_format, OF one, THEN conjunct1, rule_format, OF drun] .
  from ok fresh nf run n m c1 c2 c3 okp freshp np mp prun p1 p2 p3 drun d1 d2 d3
  show ?thesis by blast
qed

subsection \<open>The geometry established by graph initialization\<close>






lemma ok_or_assert_simps [simp]:
  "ok_or_assert P (Inl e) = (e = AssertFailed)"
  "ok_or_assert P (Inr x) = P x"
  by (simp_all add: ok_or_assert_def)




lemma same_links_refl [simp]: "same_links net net"
  by (simp add: same_links_def)









lemma get_nnodes_Inr_iff: "get_nnodes net n = Inr a \<longleftrightarrow> map_of (net_nodes net) n = Some a"
  by (auto simp: get_nnodes_def split: option.splits)


lemma get_nnodes_None: "map_of (net_nodes net) n = None \<Longrightarrow> get_nnodes net n = Inl NullPointer"
  by (simp add: get_nnodes_def)

lemma get_nedges_None: "map_of (net_edges net) g = None \<Longrightarrow> get_nedges net g = Inl NullPointer"
  by (simp add: get_nedges_def)

lemma put_nnodes_simps [simp]:
  "map_of (net_nodes (put_nnodes n x net)) = (map_of (net_nodes net))(n \<mapsto> x)"
  "net_edges (put_nnodes n x net) = net_edges net"
  "input_nodes (put_nnodes n x net) = input_nodes net"
  "output_nodes (put_nnodes n x net) = output_nodes net"
  by (simp_all add: put_nnodes_def update_conv')

lemma put_nedges_simps [simp]:
  "map_of (net_edges (put_nedges g x net)) = (map_of (net_edges net))(g \<mapsto> x)"
  "net_nodes (put_nedges g x net) = net_nodes net"
  "input_nodes (put_nedges g x net) = input_nodes net"
  "output_nodes (put_nedges g x net) = output_nodes net"
  by (simp_all add: put_nedges_def update_conv')








lemma stride_frame_refl [simp]: "stride_frame net net"
  by (simp add: stride_frame_def)











lemma fov_frame_refl [simp]: "fov_frame net net"
  by (simp add: fov_frame_def)










lemma set_set_insert [simp]: "set (set_insert k ks) = insert k (set ks)"
  by (auto simp: set_insert_def set_insort_key)






lemma fresh_geometryD:
  assumes "fresh_geometry net"
  shows "stride_of net n = vzero" "fov_of net n = vzero" "fsize_of net n = vzero"
proof -
  have "\<And>a. map_of (net_nodes net) n = Some a \<Longrightarrow>
          fov a = vzero \<and> n_stride a = vzero \<and> fsize a = vzero"
    using assms by (auto simp: fresh_geometry_def list_all_iff dest!: map_of_SomeD)
  then show "stride_of net n = vzero" "fov_of net n = vzero" "fsize_of net n = vzero"
    by (auto simp: stride_of_def fov_of_def fsize_of_def split: option.splits)
qed

lemma vone_nonzero [simp]: "vone \<noteq> vzero"
  by (simp add: vone_def vzero_def)




lemma output_update_simps [simp]:
  "node_links (net\<lparr>output_nodes := x\<rparr>) = node_links net"
  "edge_links (net\<lparr>output_nodes := x\<rparr>) = edge_links net"
  "stride_of (net\<lparr>output_nodes := x\<rparr>) = stride_of net"
  "fov_of (net\<lparr>output_nodes := x\<rparr>) = fov_of net"
  "fsize_of (net\<lparr>output_nodes := x\<rparr>) = fsize_of net"
  "in_stride_of (net\<lparr>output_nodes := x\<rparr>) = in_stride_of net"
  "in_fsize_of (net\<lparr>output_nodes := x\<rparr>) = in_fsize_of net"
  by (simp_all add: fun_eq_iff node_links_def edge_links_def stride_of_def fov_of_def
      fsize_of_def in_stride_of_def in_fsize_of_def)

lemma graph_ok_output_update [simp]:
  "graph_ok rank R (net\<lparr>output_nodes := x\<rparr>) = graph_ok rank R net"
  by (simp add: graph_ok_def)

lemma fresh_stride_inv: "fresh_geometry net \<Longrightarrow> stride_inv X net"
  by (simp add: stride_inv_def fresh_geometryD)







lemma in_stride_of_put_nnodes [simp]: "in_stride_of (put_nnodes n a net) = in_stride_of net"
  by (simp add: in_stride_of_def fun_eq_iff)

lemma in_fsize_of_put_nnodes [simp]: "in_fsize_of (put_nnodes n a net) = in_fsize_of net"
  by (simp add: in_fsize_of_def fun_eq_iff)












end
